theory Spec2Isabelle
  imports Main "HOL-Library.AList"
begin

section \<open>Go strings\<close>

text \<open>
  A Go string is a sequence of bytes; it is modelled as a \<open>string\<close> (a list of 8-bit
  characters).  The functions of package \<open>strings\<close> that router.go calls are written out
  here on byte strings.  Case mapping and white space are the ASCII ones: the route
  grammar only produces ASCII method names.
\<close>

datatype panic = IndexOutOfRange | SliceBoundsOutOfRange | NilMapWrite

text \<open>\<open>strings.HasPrefix(s, prefix)\<close>.\<close>

fun HasPrefix :: "string \<Rightarrow> string \<Rightarrow> bool" where
  "HasPrefix s [] = True"
| "HasPrefix [] (p # ps) = False"
| "HasPrefix (c # cs) (p # ps) = (c = p \<and> HasPrefix cs ps)"

text \<open>
  \<open>strings.Split(s, sep)\<close> for a separator of one byte (router.go splits on \<open>"."\<close> and
  on a newline): every occurrence of the separator cuts, and the result is never
  empty (\<open>Split("", ".")\<close> is the list holding the empty string).
\<close>

fun Split :: "string \<Rightarrow> char \<Rightarrow> string list" where
  "Split [] sep = [[]]"
| "Split (c # cs) sep =
     (if c = sep then [] # Split cs sep
      else (case Split cs sep of
              [] \<Rightarrow> [[c]]
            | x # xs \<Rightarrow> (c # x) # xs))"

text \<open>
  \<open>strings.Index(s, sep)\<close> and \<open>strings.LastIndex(s, sep)\<close> for a separator of one byte:
  the position of the first and of the last occurrence, \<open>-1\<close> when there is none.
\<close>

fun Index :: "string \<Rightarrow> char \<Rightarrow> int" where
  "Index [] sep = -1"
| "Index (c # cs) sep =
     (if c = sep then 0 else (let i = Index cs sep in if i = -1 then -1 else i + 1))"

fun LastIndex :: "string \<Rightarrow> char \<Rightarrow> int" where
  "LastIndex [] sep = -1"
| "LastIndex (c # cs) sep =
     (let i = LastIndex cs sep
      in if i \<noteq> -1 then i + 1 else if c = sep then 0 else -1)"

text \<open>
  The slice expressions \<open>s[:n]\<close> and \<open>s[n:]\<close>, which panic when \<open>n\<close> is not between 0 and
  the length of \<open>s\<close>.
\<close>

definition sliceTo :: "string \<Rightarrow> int \<Rightarrow> panic + string" where
  "sliceTo s n =
     (if 0 \<le> n \<and> n \<le> int (length s) then Inr (take (nat n) s) else Inl SliceBoundsOutOfRange)"

definition sliceFrom :: "string \<Rightarrow> int \<Rightarrow> panic + string" where
  "sliceFrom s n =
     (if 0 \<le> n \<and> n \<le> int (length s) then Inr (drop (nat n) s) else Inl SliceBoundsOutOfRange)"

text \<open>\<open>strings.ToUpper\<close> on ASCII letters.\<close>

definition upper_char :: "char \<Rightarrow> char" where
  "upper_char c =
     (case map_of (zip ''abcdefghijklmnopqrstuvwxyz'' ''ABCDEFGHIJKLMNOPQRSTUVWXYZ'') c of
        Some u \<Rightarrow> u
      | None \<Rightarrow> c)"

definition ToUpper :: "string \<Rightarrow> string" where
  "ToUpper s = map upper_char s"

section \<open>Route descriptors\<close>

text \<open>
  The struct \<open>Route\<close>.  Its field \<open>leaf\<close> points to the leaf of the path tree and the
  leaf's \<open>Value\<close> points back to the route; the cycle is cut by a record extension:
  \<open>route\<close> holds the fields that never change after \<open>NewRoute\<close>, and \<open>lroute\<close> adds the
  \<open>leaf\<close> pointer that \<open>updateTree\<close> assigns (\<open>None\<close> is Go's nil).
\<close>

record route =
  Method :: string
  Path :: string
  Action :: string
  ControllerName :: string
  MethodName :: string
  FixedParams :: "string list"
  TreePath :: string
  routesPath :: string
  line :: int

record 'l lroute = route +
  leaf :: "'l option"

text \<open>\<open>treePath\<close>: the key of a route in the path tree.\<close>

definition treePath :: "string \<Rightarrow> string \<Rightarrow> string" where
  "treePath method path =
     ''/'' @ (if method = ''*'' then '':METHOD'' else method) @ path"

text \<open>
  The two identical blocks of \<open>NewRoute\<close> that strip one trailing semicolon from a
  part of more than one byte.
\<close>

definition stripSemicolon :: "string \<Rightarrow> string" where
  "stripSemicolon s =
     (if length s > 1 \<and> last s = CHR '';'' then butlast s else s)"

text \<open>
  \<open>NewRoute\<close>.  The CSV reader of the standard library is the parameter \<open>csvRead\<close>: it
  gives the fields of the first record of its input (nil, the empty list, on an error
  or on empty input; the error is only logged).  The result \<open>r\<close> is a named result that
  is assigned before the path is checked, so the early \<open>return\<close> for a path that does
  not start with a slash returns the route too, with empty controller and method
  names.
\<close>

definition NewRoute ::
  "(string \<Rightarrow> string list) \<Rightarrow> string \<Rightarrow> string \<Rightarrow> string \<Rightarrow> string \<Rightarrow> string \<Rightarrow> int
     \<Rightarrow> 'l lroute" where
  "NewRoute csvRead method path action fixedArgs rpath n =
     (let fargs = csvRead fixedArgs;
          r = \<lparr> Method = ToUpper method, Path = path, Action = action,
                ControllerName = [], MethodName = [], FixedParams = fargs,
                TreePath = treePath (ToUpper method) path,
                routesPath = rpath, line = n, leaf = None \<rparr>
      in if \<not> HasPrefix path ''/'' then r
         else (let actionSplit = Split action CHR ''.''
               in if length actionSplit = 2
                  then r\<lparr> ControllerName := stripSemicolon (actionSplit ! 0),
                          MethodName := stripSemicolon (actionSplit ! 1) \<rparr>
                  else r))"


section \<open>The path tree\<close>

text \<open>
  Package \<open>pathtree\<close> is imported, not part of the repository.  The router is modelled
  over any implementation of it: a record of the operations that router.go calls, on a
  type \<open>'t\<close> of trees and a type \<open>'l\<close> of leafs.
  \<^item> \<open>New\<close> is \<open>pathtree.New()\<close>.
  \<^item> \<open>Add t key val\<close> is \<open>t.Add(key, val)\<close>: the tree afterwards (the call works in
    place, also when it fails), the leaf it returns (nil is \<open>None\<close>) and the error
    (nil is \<open>None\<close>).
  \<^item> \<open>Find t key\<close> is \<open>t.Find(key)\<close>: the leaf (nil is \<open>None\<close>) and the expansions.
  \<^item> \<open>TreeReverse t leaf args\<close> is \<open>t.Reverse(leaf, args)\<close>: the path, the unused values
    and the missing names.
  \<^item> \<open>Value l\<close> is \<open>l.Value.(*Route)\<close> and \<open>Wildcards l\<close> are the names
    \<open>l.Wildcards[i].Name\<close>, in order.
  A Go map from strings to strings is an association list read with \<open>map_of\<close>; a nil
  map is \<open>None\<close>.
\<close>

type_synonym args = "(string \<times> string) list"

record ('t, 'l) pathtree =
  New :: "'t"
  Add :: "'t \<Rightarrow> string \<Rightarrow> route \<Rightarrow> 't \<times> 'l option \<times> string option"
  Find :: "'t \<Rightarrow> string \<Rightarrow> 'l option \<times> string list"
  TreeReverse :: "'t \<Rightarrow> 'l option \<Rightarrow> args option \<Rightarrow> string \<times> args \<times> string list"
  Value :: "'l \<Rightarrow> route"
  Wildcards :: "'l \<Rightarrow> string list"

section \<open>The router and forward matching\<close>

record ('t, 'l) router =
  Routes :: "'l lroute list"
  Tree :: "'t"
  router_path :: string

record request =
  req_Method :: string
  req_URL_Path :: string

text \<open>
  The struct \<open>RouteMatch\<close> (its fields carry the prefix \<open>rm_\<close>, the names being taken by
  \<open>route\<close>).  \<open>Params\<close> is a \<open>url.Values\<close>, a map from names to lists of strings; a nil map
  reads like the empty one.
\<close>

record routematch =
  rm_Action :: string
  rm_ControllerName :: string
  rm_MethodName :: string
  rm_FixedParams :: "string list"
  rm_Params :: "string \<rightharpoonup> string list"

definition notFound :: routematch where
  "notFound = \<lparr> rm_Action = ''404'', rm_ControllerName = [], rm_MethodName = [],
                 rm_FixedParams = [], rm_Params = Map.empty \<rparr>"

text \<open>
  The loop \<open>for i, v := range expansions { params[leaf.Wildcards[i].Name] = []string{v} }\<close>:
  the walk over both lists is the indexing by \<open>i\<close>, which panics when the expansions
  outnumber the wildcards.
\<close>

fun mkParams ::
  "string list \<Rightarrow> string list \<Rightarrow> (string \<rightharpoonup> string list)
     \<Rightarrow> panic + (string \<rightharpoonup> string list)" where
  "mkParams ws [] params = Inr params"
| "mkParams [] (v # vs) params = Inl IndexOutOfRange"
| "mkParams (w # ws) (v # vs) params = mkParams ws vs (params(w \<mapsto> [v]))"

text \<open>
  The block that \<open>Route\<close> runs on the controller name and again on the method name: the
  text after the last colon names a parameter, and \<open>params[name][0]\<close> panics when the
  name has no entry (a missing key reads as the nil slice).
\<close>

definition substWildcard :: "string \<Rightarrow> (string \<rightharpoonup> string list) \<Rightarrow> panic + string" where
  "substWildcard name params =
     (let pos = LastIndex name CHR '':''
      in if pos \<noteq> -1
         then (case params (drop (nat (pos + 1)) name) of
                 None \<Rightarrow> Inl IndexOutOfRange
               | Some [] \<Rightarrow> Inl IndexOutOfRange
               | Some (v # _) \<Rightarrow> Inr (if pos = 0 then v else take (nat pos) name @ v))
         else Inr name)"

text \<open>\<open>Router.Route\<close>: \<open>Inr None\<close> is the result nil, \<open>Inl\<close> a panic.\<close>

definition Route ::
  "('t, 'l) pathtree \<Rightarrow> ('t, 'l) router \<Rightarrow> request \<Rightarrow> panic + routematch option" where
  "Route pt router req =
     (case Find pt (Tree router) (treePath (req_Method req) (req_URL_Path req)) of
        (None, expansions) \<Rightarrow> Inr None
      | (Some lf, expansions) \<Rightarrow>
          (let route = Value pt lf
           in case mkParams (Wildcards pt lf) expansions Map.empty of
                Inl p \<Rightarrow> Inl p
              | Inr params \<Rightarrow>
                  if Action route = ''404'' then Inr (Some notFound)
                  else (case substWildcard (ControllerName route) params of
                          Inl p \<Rightarrow> Inl p
                        | Inr controllerName \<Rightarrow>
                            (case substWildcard (MethodName route) params of
                               Inl p \<Rightarrow> Inl p
                             | Inr methodName \<Rightarrow>
                                 Inr (Some \<lparr> rm_Action = [],
                                             rm_ControllerName = controllerName,
                                             rm_MethodName = methodName,
                                             rm_FixedParams = FixedParams route,
                                             rm_Params = params \<rparr>)))))"


section \<open>The route grammar\<close>

text \<open>
  \<open>routePattern\<close> is a regular expression of Go's package \<open>regexp\<close>, whose matches are
  the ones of a backtracking matcher that prefers the first alternative and the
  longest repetition.  The expressions are the ones the pattern needs: a literal
  compared without regard to (ASCII) case, one byte of a class, a repetition of a
  class, an option, an alternative, a sequence, a numbered group and the end of the
  text.
\<close>

datatype re =
    Lit string
  | Cls "char \<Rightarrow> bool"
  | Star "char \<Rightarrow> bool"
  | Opt re
  | Alt re re
  | Seq re re
  | Grp nat re
  | End

fun matchStar :: "(char \<Rightarrow> bool) \<Rightarrow> string \<Rightarrow> (string \<Rightarrow> 'a option) \<Rightarrow> 'a option" where
  "matchStar p [] k = k []"
| "matchStar p (x # xs) k =
     (if p x
      then (case matchStar p xs k of Some m \<Rightarrow> Some m | None \<Rightarrow> k (x # xs))
      else k (x # xs))"

text \<open>
  \<open>rematch r s caps k\<close> matches \<open>r\<close> at the front of \<open>s\<close> and hands the rest of the text
  and the groups captured so far to the continuation \<open>k\<close>; \<open>None\<close> asks for the next
  choice.
\<close>

fun rematch ::
  "re \<Rightarrow> string \<Rightarrow> (nat \<Rightarrow> string) \<Rightarrow> (string \<Rightarrow> (nat \<Rightarrow> string) \<Rightarrow> 'a option) \<Rightarrow> 'a option" where
  "rematch (Lit l) s caps k =
     (if length l \<le> length s \<and> ToUpper (take (length l) s) = ToUpper l
      then k (drop (length l) s) caps else None)"
| "rematch (Cls p) s caps k =
     (case s of [] \<Rightarrow> None | x # xs \<Rightarrow> if p x then k xs caps else None)"
| "rematch (Star p) s caps k = matchStar p s (\<lambda>s'. k s' caps)"
| "rematch (Opt r) s caps k =
     (case rematch r s caps k of Some m \<Rightarrow> Some m | None \<Rightarrow> k s caps)"
| "rematch (Alt a b) s caps k =
     (case rematch a s caps k of Some m \<Rightarrow> Some m | None \<Rightarrow> rematch b s caps k)"
| "rematch (Seq a b) s caps k = rematch a s caps (\<lambda>s' caps'. rematch b s' caps' k)"
| "rematch (Grp n r) s caps k =
     rematch r s caps (\<lambda>s' caps'. k s' (caps'(n := take (length s - length s') s)))"
| "rematch End s caps k = (if s = [] then k s caps else None)"

definition blank :: "char \<Rightarrow> bool" where
  "blank c = (c = CHR '' '' \<or> c = CHR 0x09)"

definition plus :: "(char \<Rightarrow> bool) \<Rightarrow> re" where
  "plus p = Seq (Cls p) (Star p)"

text \<open>
  The pattern
  \<^verbatim>\<open>(?i)^(GET|POST|PUT|DELETE|PATCH|OPTIONS|HEAD|WS|\*)[(]?([^)]*)(\))?[ \t]+(.*/[^ \t]*)[ \t]+([^ \t(]+)\(?([^)]*)\)?[ \t]*$\<close>
  with its groups 1 to 6.
\<close>

definition routePattern :: re where
  "routePattern =
     Seq (Grp 1 (Alt (Lit ''GET'') (Alt (Lit ''POST'') (Alt (Lit ''PUT'')
            (Alt (Lit ''DELETE'') (Alt (Lit ''PATCH'') (Alt (Lit ''OPTIONS'')
            (Alt (Lit ''HEAD'') (Alt (Lit ''WS'') (Lit ''*''))))))))))
    (Seq (Opt (Cls (\<lambda>c. c = CHR ''('')))
    (Seq (Grp 2 (Star (\<lambda>c. c \<noteq> CHR '')'')))
    (Seq (Opt (Grp 3 (Cls (\<lambda>c. c = CHR '')''))))
    (Seq (plus blank)
    (Seq (Grp 4 (Seq (Star (\<lambda>c. c \<noteq> CHR 0x0A))
                (Seq (Cls (\<lambda>c. c = CHR ''/'')) (Star (\<lambda>c. \<not> blank c)))))
    (Seq (plus blank)
    (Seq (Grp 5 (plus (\<lambda>c. \<not> blank c \<and> c \<noteq> CHR ''('')))
    (Seq (Opt (Cls (\<lambda>c. c = CHR ''('')))
    (Seq (Grp 6 (Star (\<lambda>c. c \<noteq> CHR '')'')))
    (Seq (Opt (Cls (\<lambda>c. c = CHR '')'')))
    (Seq (Star blank) End)))))))))))"

text \<open>
  \<open>parseRouteLine\<close>: method, path, action and fixed arguments (groups 1, 4, 5 and 6) of
  a line the pattern matches; \<open>None\<close> is \<open>found = false\<close>.
\<close>

definition parseRouteLine :: "string \<Rightarrow> (string \<times> string \<times> string \<times> string) option" where
  "parseRouteLine ln =
     (case rematch routePattern ln (\<lambda>i. []) (\<lambda>s caps. Some caps) of
        None \<Rightarrow> None
      | Some matches \<Rightarrow> Some (matches 1, matches 4, matches 5, matches 6))"


section \<open>Reading the routes file\<close>

text \<open>
  \<open>strings.TrimSpace\<close>: the white space of Unicode, in UTF-8.  \<open>spaceWidth s\<close> is the
  number of bytes of the white-space character at the front of \<open>s\<close> (0 when there is
  none); \<open>spaceWidthEnd\<close> reads the same encodings at the end of the reversed text.
\<close>

definition asciiSpace :: "char \<Rightarrow> bool" where
  "asciiSpace c =
     (c = CHR '' '' \<or> c = CHR 0x09 \<or> c = CHR 0x0A \<or> c = CHR 0x0B \<or> c = CHR 0x0C \<or> c = CHR 0x0D)"

definition space3 :: "char \<Rightarrow> char \<Rightarrow> char \<Rightarrow> bool" where
  "space3 a b c =
     ((a = CHR 0xE1 \<and> b = CHR 0x9A \<and> c = CHR 0x80)
      \<or> (a = CHR 0xE2 \<and> b = CHR 0x80 \<and>
          c \<in> set [CHR 0x80, CHR 0x81, CHR 0x82, CHR 0x83, CHR 0x84, CHR 0x85, CHR 0x86,
                    CHR 0x87, CHR 0x88, CHR 0x89, CHR 0x8A, CHR 0xA8, CHR 0xA9, CHR 0xAF])
      \<or> (a = CHR 0xE2 \<and> b = CHR 0x81 \<and> c = CHR 0x9F)
      \<or> (a = CHR 0xE3 \<and> b = CHR 0x80 \<and> c = CHR 0x80))"

definition space2 :: "char \<Rightarrow> char \<Rightarrow> bool" where
  "space2 a b = (a = CHR 0xC2 \<and> (b = CHR 0x85 \<or> b = CHR 0xA0))"

fun spaceWidth :: "string \<Rightarrow> nat" where
  "spaceWidth (a # b # c # s) =
     (if asciiSpace a then 1 else if space2 a b then 2 else if space3 a b c then 3 else 0)"
| "spaceWidth [a, b] = (if asciiSpace a then 1 else if space2 a b then 2 else 0)"
| "spaceWidth [a] = (if asciiSpace a then 1 else 0)"
| "spaceWidth [] = 0"

fun spaceWidthEnd :: "string \<Rightarrow> nat" where
  "spaceWidthEnd (c # b # a # s) =
     (if asciiSpace c then 1 else if space2 b c then 2 else if space3 a b c then 3 else 0)"
| "spaceWidthEnd [c, b] = (if asciiSpace c then 1 else if space2 b c then 2 else 0)"
| "spaceWidthEnd [c] = (if asciiSpace c then 1 else 0)"
| "spaceWidthEnd [] = 0"

function trimLeft :: "string \<Rightarrow> string" where
  "trimLeft s = (if spaceWidth s = 0 then s else trimLeft (drop (spaceWidth s) s))"
  by pat_completeness auto
termination
proof (relation "measure length")
  fix s :: string
  assume "\<not> spaceWidth s = 0"
  then show "(drop (spaceWidth s) s, s) \<in> measure length"
    by (cases s) auto
qed simp

function trimRightRev :: "string \<Rightarrow> string" where
  "trimRightRev s = (if spaceWidthEnd s = 0 then s else trimRightRev (drop (spaceWidthEnd s) s))"
  by pat_completeness auto
termination
proof (relation "measure length")
  fix s :: string
  assume "\<not> spaceWidthEnd s = 0"
  then show "(drop (spaceWidthEnd s) s, s) \<in> measure length"
    by (cases s) auto
qed simp

definition TrimSpace :: "string \<Rightarrow> string" where
  "TrimSpace s = rev (trimRightRev (rev (trimLeft s)))"

text \<open>The verb \<open>%d\<close> of \<open>fmt.Errorf\<close> on a length.\<close>

function showNat :: "nat \<Rightarrow> string" where
  "showNat n =
     (if n < 10 then [''0123456789'' ! n]
      else showNat (n div 10) @ [''0123456789'' ! (n mod 10)])"
  by pat_completeness auto
termination
  by (relation "measure id") auto

text \<open>
  The struct \<open>Error\<close> of the framework (fields with the prefix \<open>err_\<close>), and a Go value of
  the interface \<open>error\<close>: a plain message or a pointer to an \<open>Error\<close>.
\<close>

record Error =
  err_Title :: string
  err_Description :: string
  err_Path :: string
  err_Line :: int
  err_SourceLines :: "string list"

datatype goerror = PlainError string | RevelError Error

text \<open>
  What the package takes from outside router.go:
  \<^item> \<open>ReadFile p\<close> is \<open>ioutil.ReadFile(p)\<close>, the error message or the content;
  \<^item> \<open>ModuleByName name\<close> is the \<open>Path\<close> of the module, \<open>None\<close> when it is not found;
  \<^item> \<open>SetAction c m\<close> is the error of \<open>Controller.SetAction\<close>, \<open>None\<close> for nil;
  \<^item> \<open>CsvRead\<close> is the first record of \<open>encoding/csv\<close> (see \<open>NewRoute\<close>);
  \<^item> \<open>Join\<close> is \<open>path.Join\<close>.
\<close>

record env =
  ReadFile :: "string \<Rightarrow> string + string"
  ModuleByName :: "string \<Rightarrow> string option"
  SetAction :: "string \<Rightarrow> string \<Rightarrow> goerror option"
  CsvRead :: "string \<Rightarrow> string list"
  Join :: "string list \<Rightarrow> string"

definition routeError :: "env \<Rightarrow> goerror \<Rightarrow> string \<Rightarrow> string \<Rightarrow> int \<Rightarrow> Error" where
  "routeError e err rpath content n =
     (case err of
        RevelError revelError \<Rightarrow> revelError
      | PlainError msg \<Rightarrow>
          (let content' =
                 (if content = []
                  then (case ReadFile e rpath of Inl _ \<Rightarrow> content | Inr c \<Rightarrow> c)
                  else content)
           in \<lparr> err_Title = ''Route validation error'', err_Description = msg,
                err_Path = rpath, err_Line = n + 1,
                err_SourceLines = Split content' CHR 0x0A \<rparr>))"

definition validateRoute :: "env \<Rightarrow> 'a route_scheme \<Rightarrow> goerror option" where
  "validateRoute e r =
     (if Action r = ''404'' then None
      else (let parts = Split (Action r) CHR ''.''
            in if length parts \<noteq> 2
               then Some (PlainError (''Expected two parts (Controller.Action), but got ''
                                       @ showNat (length parts) @ '': '' @ Action r))
               else if LastIndex (parts ! 0) CHR '':'' \<noteq> -1
                       \<or> LastIndex (parts ! 1) CHR '':'' \<noteq> -1
               then None
               else SetAction e (parts ! 0) (parts ! 1)))"

text \<open>
  \<open>getModuleRoutes\<close>, \<open>parseRoutes\<close> and \<open>parseRoutesFile\<close> call each other: a routes file
  may include a module whose routes file includes a module, without a bound.  The
  recursion is cut by a depth: \<open>parseRoutesFile e d\<close> reads files nested at most \<open>d\<close>
  deep and is \<open>None\<close> when the nesting goes deeper.  \<open>pf\<close> stands for the call of
  \<open>parseRoutesFile\<close> one level down.
\<close>

definition getModuleRoutes ::
  "(string \<Rightarrow> bool \<Rightarrow> (Error + 'l lroute list) option) \<Rightarrow> env \<Rightarrow> string \<Rightarrow> bool
     \<Rightarrow> (Error + 'l lroute list) option" where
  "getModuleRoutes pf e moduleName validate =
     (case ModuleByName e moduleName of
        None \<Rightarrow> Some (Inr [])
      | Some modulePath \<Rightarrow> pf (Join e [modulePath, ''conf'', ''routes'']) validate)"

text \<open>
  The loop of \<open>parseRoutes\<close> over the numbered lines; \<open>routes\<close> is the slice built so far.
\<close>

fun parseLines ::
  "(string \<Rightarrow> bool \<Rightarrow> (Error + 'l lroute list) option) \<Rightarrow> env \<Rightarrow> string \<Rightarrow> string \<Rightarrow> bool
     \<Rightarrow> (nat \<times> string) list \<Rightarrow> 'l lroute list \<Rightarrow> (Error + 'l lroute list) option" where
  "parseLines pf e rpath content validate [] routes = Some (Inr routes)"
| "parseLines pf e rpath content validate ((n, l) # rest) routes =
     (let ln = TrimSpace l
      in if length ln = 0 \<or> hd ln = CHR ''#''
         then parseLines pf e rpath content validate rest routes
         else if HasPrefix ln ''module:''
         then (case getModuleRoutes pf e (drop (length ''module:'') ln) validate of
                 None \<Rightarrow> None
               | Some (Inl err) \<Rightarrow> Some (Inl (routeError e (RevelError err) rpath content (int n)))
               | Some (Inr moduleRoutes) \<Rightarrow>
                   parseLines pf e rpath content validate rest (routes @ moduleRoutes))
         else (case parseRouteLine ln of
                 None \<Rightarrow> parseLines pf e rpath content validate rest routes
               | Some (method, path, action, fixedArgs) \<Rightarrow>
                   (let r = NewRoute (CsvRead e) method path action fixedArgs rpath (int n);
                        routes' = routes @ [r]
                    in if validate
                       then (case validateRoute e r of
                               Some err \<Rightarrow> Some (Inl (routeError e err rpath content (int n)))
                             | None \<Rightarrow> parseLines pf e rpath content validate rest routes')
                       else parseLines pf e rpath content validate rest routes')))"

definition parseRoutes ::
  "(string \<Rightarrow> bool \<Rightarrow> (Error + 'l lroute list) option) \<Rightarrow> env \<Rightarrow> string \<Rightarrow> string \<Rightarrow> bool
     \<Rightarrow> (Error + 'l lroute list) option" where
  "parseRoutes pf e rpath content validate =
     parseLines pf e rpath content validate (enumerate 0 (Split content CHR 0x0A)) []"

fun parseRoutesFile ::
  "env \<Rightarrow> nat \<Rightarrow> string \<Rightarrow> bool \<Rightarrow> (Error + 'l lroute list) option" where
  "parseRoutesFile e 0 rpath validate = None"
| "parseRoutesFile e (Suc d) rpath validate =
     (case ReadFile e rpath of
        Inl msg \<Rightarrow> Some (Inl \<lparr> err_Title = ''Failed to load routes file'',
                               err_Description = msg, err_Path = [], err_Line = 0,
                               err_SourceLines = [] \<rparr>)
      | Inr content \<Rightarrow> parseRoutes (parseRoutesFile e d) e rpath content validate)"

section \<open>Building the table\<close>

definition NewRouter :: "('t, 'l) pathtree \<Rightarrow> string \<Rightarrow> ('t, 'l) router" where
  "NewRouter pt rpath = \<lparr> Routes = [], Tree = New pt, router_path = rpath \<rparr>"

text \<open>
  The loop of \<open>updateTree\<close> over \<open>router.Routes\<close>: the tree so far, the routes still to
  register; it gives the tree, the routes with the leafs assigned to them, and the
  error.  \<open>Add\<close> receives the route as the value of the leaf.
\<close>

fun updateTreeLoop ::
  "('t, 'l) pathtree \<Rightarrow> env \<Rightarrow> 't \<Rightarrow> 'l lroute list \<Rightarrow> 't \<times> 'l lroute list \<times> Error option" where
  "updateTreeLoop pt e t [] = (t, [], None)"
| "updateTreeLoop pt e t (r # rs) =
     (case Add pt t (TreePath r) (route.truncate r) of
        (t1, lf, err) \<Rightarrow>
          (let r' = r\<lparr> leaf := lf \<rparr>;
               (t2, err') =
                 (if err = None \<and> Method r = ''GET''
                  then (case Add pt t1 (treePath ''HEAD'' (Path r)) (route.truncate r) of
                          (t2, _, err2) \<Rightarrow> (t2, err2))
                  else (t1, err))
           in case err' of
                Some msg \<Rightarrow>
                  (t2, r' # rs, Some (routeError e (PlainError msg) (routesPath r) [] (line r)))
              | None \<Rightarrow>
                  (case updateTreeLoop pt e t2 rs of
                     (t3, rs', res) \<Rightarrow> (t3, r' # rs', res))))"

definition updateTree ::
  "('t, 'l) pathtree \<Rightarrow> env \<Rightarrow> ('t, 'l) router \<Rightarrow> ('t, 'l) router \<times> Error option" where
  "updateTree pt e router =
     (case updateTreeLoop pt e (New pt) (Routes router) of
        (t, rs, res) \<Rightarrow> (router\<lparr> Routes := rs, Tree := t \<rparr>, res))"

text \<open>
  \<open>Refresh\<close>: the router afterwards and the error (\<open>None\<close> is nil).  The first statement
  assigns \<open>router.Routes\<close> whatever \<open>parseRoutesFile\<close> returns, and every error return of
  \<open>parseRoutesFile\<close> and \<open>parseRoutes\<close> returns nil routes.  \<open>d\<close> bounds the nesting of
  module files.
\<close>

definition Refresh ::
  "('t, 'l) pathtree \<Rightarrow> env \<Rightarrow> nat \<Rightarrow> ('t, 'l) router
     \<Rightarrow> (('t, 'l) router \<times> Error option) option" where
  "Refresh pt e d router =
     (case parseRoutesFile e d (router_path router) True of
        None \<Rightarrow> None
      | Some (Inl err) \<Rightarrow> Some (router\<lparr> Routes := [] \<rparr>, Some err)
      | Some (Inr routes) \<Rightarrow> Some (updateTree pt e (router\<lparr> Routes := routes \<rparr>)))"


section \<open>Reverse routing\<close>

text \<open>The struct \<open>ActionDefinition\<close> (fields with the prefix \<open>ad_\<close>).\<close>

record actiondef =
  ad_Host :: string
  ad_Method :: string
  ad_Url :: string
  ad_Action :: string
  ad_Star :: bool
  ad_Args :: "args option"

definition untreePath :: "string \<Rightarrow> string \<times> string" where
  "untreePath p =
     (if length p = 0 then (p, ''/'')
      else (let split = Index (drop 1 p) CHR ''/''
            in if split = -1 then (p, ''/'')
               else (take (nat split) p, drop (nat (split + 1)) p)))"

text \<open>
  One operand of the third check of the loop,
  \<open>wildcard > 0 && routeName[:wildcard] != name[:wildcard]\<close>: the slice of the requested
  name panics when the name is shorter than the prefix.
\<close>

definition prefixDiffers :: "string \<Rightarrow> int \<Rightarrow> string \<Rightarrow> panic + bool" where
  "prefixDiffers routeName wildcard name =
     (if wildcard > 0
      then (case sliceTo routeName wildcard of
              Inl p \<Rightarrow> Inl p
            | Inr a \<Rightarrow> (case sliceTo name wildcard of
                          Inl p \<Rightarrow> Inl p
                        | Inr b \<Rightarrow> Inr (a \<noteq> b)))
      else Inr False)"

text \<open>
  The assignment \<open>argValues[routeName[wildcard+1:]] = name[wildcard:]\<close>, run when the
  wildcard is not \<open>-1\<close>; writing to a nil map panics.
\<close>

definition insertWildcard :: "string \<Rightarrow> int \<Rightarrow> string \<Rightarrow> args option \<Rightarrow> panic + args option" where
  "insertWildcard routeName wildcard name argValues =
     (if wildcard \<noteq> -1
      then (case sliceFrom routeName (wildcard + 1) of
              Inl p \<Rightarrow> Inl p
            | Inr k \<Rightarrow> (case sliceFrom name wildcard of
                          Inl p \<Rightarrow> Inl p
                        | Inr v \<Rightarrow> (case argValues of
                                      None \<Rightarrow> Inl NilMapWrite
                                    | Some m \<Rightarrow> Inr (Some (AList.update k v m)))))
      else Inr argValues)"

text \<open>
  The end of the loop body, from the call of \<open>Tree.Reverse\<close> to the \<open>return\<close>.  \<open>encode\<close> is
  \<open>url.Values.Encode\<close> of the standard library, on the values set from the unused
  arguments.
\<close>

definition reverseResult ::
  "('t, 'l) pathtree \<Rightarrow> (args \<Rightarrow> string) \<Rightarrow> 't \<Rightarrow> 'l lroute \<Rightarrow> string \<Rightarrow> args option
     \<Rightarrow> actiondef" where
  "reverseResult pt encode t r action argValues =
     (case TreeReverse pt t (leaf r) argValues of
        (p, unusedValues, missing) \<Rightarrow>
          (let url = snd (untreePath p);
               url' = (if length unusedValues > 0 then url @ ''?'' @ encode unusedValues else url)
           in \<lparr> ad_Host = ''TODO'',
                ad_Method = (if Method r = ''*'' then ''GET'' else Method r),
                ad_Url = url',
                ad_Action = action,
                ad_Star = (Method r = ''*''),
                ad_Args = argValues \<rparr>))"

text \<open>
  The body of the loop of \<open>Reverse\<close> for one route: \<open>Inr None\<close> is \<open>continue\<close>,
  \<open>Inr (Some a)\<close> is \<open>return a\<close>, \<open>Inl\<close> a panic.
\<close>

definition reverseRoute ::
  "('t, 'l) pathtree \<Rightarrow> (args \<Rightarrow> string) \<Rightarrow> 't \<Rightarrow> 'l lroute \<Rightarrow> string \<Rightarrow> string
     \<Rightarrow> string \<Rightarrow> args option \<Rightarrow> panic + actiondef option" where
  "reverseRoute pt encode t r controllerName methodName action argValues =
     (if ControllerName r = [] \<or> MethodName r = [] then Inr None
      else (let controllerWildcard = LastIndex (ControllerName r) CHR '':'';
                methodWildcard = LastIndex (MethodName r) CHR '':''
            in if (controllerWildcard = -1 \<and> ControllerName r \<noteq> controllerName)
                  \<or> (methodWildcard = -1 \<and> MethodName r \<noteq> methodName)
               then Inr None
               else if (controllerWildcard > 0
                          \<and> int (length (ControllerName r)) \<le> controllerWildcard)
                       \<or> (methodWildcard > 0 \<and> int (length (MethodName r)) \<le> methodWildcard)
               then Inr None
               else (case prefixDiffers (ControllerName r) controllerWildcard controllerName of
                       Inl p \<Rightarrow> Inl p
                     | Inr True \<Rightarrow> Inr None
                     | Inr False \<Rightarrow>
                 (case prefixDiffers (MethodName r) methodWildcard methodName of
                       Inl p \<Rightarrow> Inl p
                     | Inr True \<Rightarrow> Inr None
                     | Inr False \<Rightarrow>
                 (case insertWildcard (ControllerName r) controllerWildcard controllerName
                         argValues of
                       Inl p \<Rightarrow> Inl p
                     | Inr argValues1 \<Rightarrow>
                 (case insertWildcard (MethodName r) methodWildcard methodName argValues1 of
                       Inl p \<Rightarrow> Inl p
                     | Inr argValues2 \<Rightarrow>
                         Inr (Some (reverseResult pt encode t r action argValues2))))))))"

text \<open>
  The loop of \<open>Reverse\<close> over \<open>router.Routes\<close>: \<open>Inr None\<close> is the result nil after the last
  route.
\<close>

fun reverseLoop ::
  "('t, 'l) pathtree \<Rightarrow> (args \<Rightarrow> string) \<Rightarrow> 't \<Rightarrow> 'l lroute list \<Rightarrow> string \<Rightarrow> string
     \<Rightarrow> string \<Rightarrow> args option \<Rightarrow> panic + actiondef option" where
  "reverseLoop pt encode t [] controllerName methodName action argValues = Inr None"
| "reverseLoop pt encode t (r # rest) controllerName methodName action argValues =
     (case reverseRoute pt encode t r controllerName methodName action argValues of
        Inl p \<Rightarrow> Inl p
      | Inr None \<Rightarrow> reverseLoop pt encode t rest controllerName methodName action argValues
      | Inr (Some a) \<Rightarrow> Inr (Some a))"

definition Reverse ::
  "('t, 'l) pathtree \<Rightarrow> (args \<Rightarrow> string) \<Rightarrow> ('t, 'l) router \<Rightarrow> string \<Rightarrow> args option
     \<Rightarrow> panic + actiondef option" where
  "Reverse pt encode router action argValues =
     (let actionSplit = Split action CHR ''.''
      in if length actionSplit \<noteq> 2 then Inr None
         else reverseLoop pt encode (Tree router) (Routes router)
                (actionSplit ! 0) (actionSplit ! 1) action argValues)"


section \<open>A path tree\<close>

text \<open>
  Modelled from the spec: the prefix tree of package \<open>pathtree\<close> (\<open>New\<close>, \<open>Add\<close>, \<open>Find\<close>,
  \<open>Reverse\<close> and the leaf), which router.go imports and which is not under src/.  The
  spec describes a tree keyed by the elements of the method-qualified path, whose
  elements are literal text or a named placeholder \<open>:name\<close>, in which the
  first-declared matching rule wins, which refuses a registration that conflicts with
  an earlier one, and which rebuilds a path from a leaf and argument values.  The
  model keeps the leafs in the order of their registration.
\<close>

record fleaf =
  fl_Value :: route
  fl_Wildcards :: "string list"
  fl_Elements :: "string list"

text \<open>
  Modelled from the spec: the elements of a key, the text between its slashes (a key
  starts with a slash, so the text before the first slash is empty and is dropped),
  and the test for a placeholder element.
\<close>

definition elements :: "string \<Rightarrow> string list" where
  "elements key = tl (Split key CHR ''/'')"

definition isPlaceholder :: "string \<Rightarrow> bool" where
  "isPlaceholder el = (case el of [] \<Rightarrow> False | c # _ \<Rightarrow> c = CHR '':'')"

text \<open>
  Modelled from the spec: matching the elements of a registered key against the
  elements of a requested key.  A literal element matches itself, a placeholder matches
  any one element and captures it; the result is the captured values, in order.
\<close>

fun fmatch :: "string list \<Rightarrow> string list \<Rightarrow> string list option" where
  "fmatch [] [] = Some []"
| "fmatch (p # ps) (x # xs) =
     (if isPlaceholder p then map_option ((#) x) (fmatch ps xs)
      else if p = x then fmatch ps xs
      else None)"
| "fmatch [] (x # xs) = None"
| "fmatch (p # ps) [] = None"

text \<open>
  Modelled from the spec: two keys conflict when they have the same structure, that is
  the same literal elements and placeholders at the same positions.
\<close>

fun sameShape :: "string list \<Rightarrow> string list \<Rightarrow> bool" where
  "sameShape [] [] = True"
| "sameShape (p # ps) (q # qs) =
     ((if isPlaceholder p then isPlaceholder q else p = q) \<and> sameShape ps qs)"
| "sameShape [] (q # qs) = False"
| "sameShape (p # ps) [] = False"

text \<open>
  Modelled from the spec: the leaf registered for a key.  Its wildcards are the names of
  the placeholder elements of the key, in order.
\<close>

definition leafFor :: "string \<Rightarrow> route \<Rightarrow> fleaf" where
  "leafFor key val =
     \<lparr> fl_Value = val, fl_Wildcards = map tl (filter isPlaceholder (elements key)),
       fl_Elements = elements key \<rparr>"

text \<open>
  Modelled from the spec: \<open>Add\<close> appends the leaf for the key, unless a registered key
  conflicts with it; then the tree is unchanged, the leaf is nil and the error is set.
\<close>

definition fAdd :: "fleaf list \<Rightarrow> string \<Rightarrow> route \<Rightarrow> fleaf list \<times> fleaf option \<times> string option" where
  "fAdd t key val =
     (if list_ex (\<lambda>l. sameShape (fl_Elements l) (elements key)) t
      then (t, None, Some ''duplicate path'')
      else (t @ [leafFor key val], Some (leafFor key val), None))"

text \<open>
  Modelled from the spec: \<open>Find\<close> returns the first-registered leaf whose key matches,
  with the captured values.
\<close>

fun fFindElements :: "fleaf list \<Rightarrow> string list \<Rightarrow> fleaf option \<times> string list" where
  "fFindElements [] els = (None, [])"
| "fFindElements (l # t) els =
     (case fmatch (fl_Elements l) els of
        Some expansions \<Rightarrow> (Some l, expansions)
      | None \<Rightarrow> fFindElements t els)"

definition fFind :: "fleaf list \<Rightarrow> string \<Rightarrow> fleaf option \<times> string list" where
  "fFind t key = fFindElements t (elements key)"

text \<open>
  Modelled from the spec: \<open>Reverse\<close> rebuilds the path of a leaf with the placeholders
  replaced by the argument values, and returns the arguments that the path did not use
  and the placeholders without a value.
\<close>

definition fReverse ::
  "fleaf list \<Rightarrow> fleaf option \<Rightarrow> args option \<Rightarrow> string \<times> args \<times> string list" where
  "fReverse t lf argValues =
     (let m = (case argValues of None \<Rightarrow> [] | Some m \<Rightarrow> m)
      in case lf of
           None \<Rightarrow> ([], m, [])
         | Some l \<Rightarrow>
             (concat (map (\<lambda>el. CHR ''/'' #
                             (if isPlaceholder el
                              then (case map_of m (tl el) of None \<Rightarrow> [] | Some v \<Rightarrow> v)
                              else el))
                          (fl_Elements l)),
              filter (\<lambda>kv. fst kv \<notin> set (fl_Wildcards l)) m,
              filter (\<lambda>w. map_of m w = None) (fl_Wildcards l)))"

definition flat :: "(fleaf list, fleaf) pathtree" where
  "flat = \<lparr> New = [], Add = fAdd, Find = fFind, TreeReverse = fReverse,
            Value = fl_Value, Wildcards = fl_Wildcards \<rparr>"


text \<open>
  The leafs that \<open>updateTree\<close> registers in this tree for a list of routes when no
  registration fails: for each route the leaf of its key and, for a \<open>GET\<close> route, the
  leaf of the \<open>HEAD\<close> key of its path.
\<close>

definition registrations :: "'a route_scheme list \<Rightarrow> fleaf list" where
  "registrations rs =
     concat (map (\<lambda>r. leafFor (TreePath r) (route.truncate r) #
                        (if Method r = ''GET''
                         then [leafFor (treePath ''HEAD'' (Path r)) (route.truncate r)]
                         else [])) rs)"

section \<open>Example inputs\<close>

text \<open>
  The environment of the examples: a routes file \<open>conf/routes\<close> with the given lines, no
  modules, a controller registry that accepts every action, a reader of fixed
  arguments that cuts at commas, and a query encoder that writes \<open>key=value&\<close>.
  \<open>missingEnv\<close> is the same environment after the routes file has been removed.
  \<open>refreshed ls\<close> is the router of the path tree above after \<open>NewRouter\<close> and one
  \<open>Refresh\<close> on the lines \<open>ls\<close>.
\<close>

definition splitCommas :: "string \<Rightarrow> string list" where
  "splitCommas s = (if s = [] then [] else Split s CHR '','')"

definition exampleEnv :: "string list \<Rightarrow> env" where
  "exampleEnv ls =
     \<lparr> ReadFile = (\<lambda>p. if p = ''conf/routes''
                         then Inr (concat (map (\<lambda>l. l @ [CHR 0x0A]) ls))
                         else Inl ''open: no such file or directory''),
       ModuleByName = (\<lambda>name. None),
       SetAction = (\<lambda>c m. None),
       CsvRead = splitCommas,
       Join = (\<lambda>ps. concat (map (\<lambda>p. CHR ''/'' # p) ps)) \<rparr>"


definition exampleEncode :: "args \<Rightarrow> string" where
  "exampleEncode m = concat (map (\<lambda>kv. fst kv @ ''='' @ snd kv @ ''&'') m)"

definition refreshed :: "string list \<Rightarrow> (fleaf list, fleaf) router" where
  "refreshed ls =
     (case Refresh flat (exampleEnv ls) 1 (NewRouter flat ''conf/routes'') of
        Some (router, err) \<Rightarrow> router
      | None \<Rightarrow> NewRouter flat ''conf/routes'')"

section \<open>Evaluation of the examples\<close>

text \<open>
  The definitions that evaluating an example unfolds.
\<close>

lemmas parse_defs =
  parseRoutes_def parseRouteLine_def routePattern_def plus_def blank_def ToUpper_def
  upper_char_def TrimSpace_def asciiSpace_def space2_def space3_def NewRoute_def
  stripSemicolon_def treePath_def validateRoute_def routeError_def getModuleRoutes_def
  splitCommas_def exampleEnv_def enumerate_eq_zip

lemmas tree_defs =
  flat_def fAdd_def leafFor_def fFind_def fReverse_def elements_def isPlaceholder_def
  updateTree_def NewRouter_def Refresh_def refreshed_def route.truncate_def

lemmas route_defs = Route_def substWildcard_def notFound_def

lemmas reverse_defs = Reverse_def reverseRoute_def reverseResult_def prefixDiffers_def
  insertWildcard_def sliceTo_def sliceFrom_def untreePath_def exampleEncode_def

section \<open>Splitting and descriptor construction\<close>

lemma Split_not_Nil [simp]: "Split s c \<noteq> []"
  by (induction s) (auto split: list.splits)

lemma length_Split: "length (Split s c) = Suc (count_list s c)"
  by (induction s) (auto split: list.splits)

lemma Split_nth0: "Split s c ! 0 = takeWhile (\<lambda>x. x \<noteq> c) s"
  by (induction s) (auto split: list.splits)

lemma Split_nth1:
  "count_list s c = Suc 0 \<Longrightarrow> Split s c ! Suc 0 = tl (dropWhile (\<lambda>x. x \<noteq> c) s)"
proof (induction s)
  case Nil
  then show ?case by simp
next
  case (Cons a s)
  show ?case
  proof (cases "a = c")
    case True
    with Cons.prems have "count_list s c = 0" by simp
    then have "c \<notin> set s" by (simp add: count_list_0_iff)
    then have "Split s c = [s]"
      by (induction s) (auto split: list.splits)
    with True show ?thesis by simp
  next
    case False
    with Cons show ?thesis
      by (cases "Split s c") (auto simp: length_Split)
  qed
qed

text \<open>
  C3, amended.  \<open>NewRoute\<close> splits the target at every dot.  When the path starts with
  a slash and the target holds exactly one dot, the controller name is the text before
  the dot and the method name the text after it, each without one trailing semicolon
  when it is longer than one byte; in every other case, a target with two or more dots
  such as \<open>A.B.C\<close> included, both names stay empty.
\<close>

theorem NewRoute_names:
  "ControllerName (NewRoute cs m p a f rp n) =
     (if HasPrefix p ''/'' \<and> count_list a CHR ''.'' = 1
      then stripSemicolon (takeWhile (\<lambda>c. c \<noteq> CHR ''.'') a) else [])
   \<and> MethodName (NewRoute cs m p a f rp n) =
     (if HasPrefix p ''/'' \<and> count_list a CHR ''.'' = 1
      then stripSemicolon (tl (dropWhile (\<lambda>c. c \<noteq> CHR ''.'') a)) else [])"
  by (simp add: NewRoute_def Let_def length_Split Split_nth0 Split_nth1)

text \<open>
  The amended statement at the target \<open>App;.Index;\<close>.
\<close>

theorem NewRoute_names_witness:
  "ControllerName (NewRoute splitCommas ''GET'' ''/x'' ''App;.Index;'' '''' ''conf/routes'' 0 :: fleaf lroute) = ''App''
   \<and> MethodName (NewRoute splitCommas ''GET'' ''/x'' ''App;.Index;'' '''' ''conf/routes'' 0 :: fleaf lroute) = ''Index''"
  using NewRoute_names[of splitCommas "''GET''" "''/x''" "''App;.Index;''" "''''" "''conf/routes''" 0]
  by (simp add: stripSemicolon_def)

text \<open>
  C3 as it is written fails: the target \<open>A.B.C\<close> does not give the names \<open>A\<close> and
  \<open>B.C\<close>, it gives two empty names.
\<close>

theorem NewRoute_two_dots:
  "ControllerName (NewRoute splitCommas ''GET'' ''/x'' ''A.B.C'' '''' ''conf/routes'' 0 :: fleaf lroute) = []
   \<and> MethodName (NewRoute splitCommas ''GET'' ''/x'' ''A.B.C'' '''' ''conf/routes'' 0 :: fleaf lroute) = []"
  by (simp add: NewRoute_def Let_def)

text \<open>
  A route that \<open>NewRoute\<close> builds for the target \<open>404\<close> has no controller and no method
  name, so the names of a route hold a colon only when its action is not \<open>404\<close>.
\<close>

lemma NewRoute_404_names:
  "ControllerName (NewRoute cs m p ''404'' f rp n) = []
   \<and> MethodName (NewRoute cs m p ''404'' f rp n) = []"
  by (simp add: NewRoute_def Let_def)

section \<open>Forward matching\<close>

lemma LastIndex_range:
  "LastIndex s c \<noteq> -1 \<Longrightarrow> 0 \<le> LastIndex s c \<and> LastIndex s c < int (length s)"
  by (induction s) (auto simp: Let_def split: if_splits)

lemma mkParams_Inr_iff:
  "(\<exists>params. mkParams ws exps m = Inr params) \<longleftrightarrow> length exps \<le> length ws"
  by (induction ws exps m rule: mkParams.induct) (simp_all add: fun_upd_def)

lemma mkParams_dom:
  "mkParams ws exps m = Inr params \<Longrightarrow> dom params = dom m \<union> set (take (length exps) ws)"
  by (induction ws exps m rule: mkParams.induct) auto

lemma mkParams_lookup:
  "mkParams ws exps m = Inr params \<Longrightarrow> params k = m k \<or> (\<exists>v. params k = Some [v])"
proof (induction ws exps m rule: mkParams.induct)
  case (3 w ws v vs m)
  from "3.prems" have "mkParams ws vs (m(w \<mapsto> [v])) = Inr params"
    by simp
  from "3.IH"[OF this] show ?case
    by (cases "k = w") auto
qed simp_all

lemma mkParams_singleton:
  "mkParams ws exps Map.empty = Inr params \<Longrightarrow> params k = Some vs \<Longrightarrow> \<exists>v. vs = [v]"
  using mkParams_lookup[of ws exps Map.empty params k] by auto

lemma mkParams_Inl:
  "mkParams ws exps m = Inl p \<Longrightarrow> p = IndexOutOfRange"
  by (induction ws exps m rule: mkParams.induct) (simp_all add: fun_upd_def)

lemma substWildcard_Inl:
  "substWildcard name params = Inl p \<Longrightarrow> p = IndexOutOfRange"
  by (auto simp: substWildcard_def Let_def split: option.splits list.splits if_splits)

lemma substWildcard_absent:
  "LastIndex name CHR '':'' \<noteq> -1
     \<Longrightarrow> drop (nat (LastIndex name CHR '':'' + 1)) name \<notin> dom params
     \<Longrightarrow> substWildcard name params = Inl IndexOutOfRange"
  by (auto simp: substWildcard_def Let_def dom_def)

lemma substWildcard_literal:
  "LastIndex name CHR '':'' = -1 \<Longrightarrow> substWildcard name params = Inr name"
  by (simp add: substWildcard_def)

lemma substWildcard_present:
  "LastIndex name CHR '':'' \<noteq> -1
     \<Longrightarrow> params (drop (nat (LastIndex name CHR '':'' + 1)) name) = Some [v]
     \<Longrightarrow> substWildcard name params = Inr (take (nat (LastIndex name CHR '':'')) name @ v)"
  by (auto simp: substWildcard_def Let_def)

lemma substWildcard_captured:
  assumes "mkParams ws exps Map.empty = Inr params"
    and "LastIndex name CHR '':'' \<noteq> -1
           \<longrightarrow> drop (nat (LastIndex name CHR '':'' + 1)) name \<in> set (take (length exps) ws)"
  shows "\<exists>res. substWildcard name params = Inr res
           \<and> (if LastIndex name CHR '':'' = -1 then res = name
              else (\<exists>v. params (drop (nat (LastIndex name CHR '':'' + 1)) name) = Some [v]
                       \<and> res = take (nat (LastIndex name CHR '':'')) name @ v))"
proof (cases "LastIndex name CHR '':'' = -1")
  case True
  then show ?thesis by (simp add: substWildcard_literal)
next
  case False
  let ?k = "drop (nat (LastIndex name CHR '':'' + 1)) name"
  have "?k \<in> dom params"
    using mkParams_dom[OF assms(1)] assms(2) False by simp
  then obtain vs where "params ?k = Some vs" by auto
  moreover from mkParams_singleton[OF assms(1) this] obtain v where "vs = [v]" ..
  ultimately have "params ?k = Some [v]" by simp
  with False show ?thesis by (simp add: substWildcard_present)
qed

lemma Route_found:
  "Find pt (Tree router) (treePath (req_Method req) (req_URL_Path req)) = (Some l, exps)
   \<Longrightarrow> Route pt router req =
       (case mkParams (Wildcards pt l) exps Map.empty of
          Inl p \<Rightarrow> Inl p
        | Inr params \<Rightarrow>
            if Action (Value pt l) = ''404'' then Inr (Some notFound)
            else (case substWildcard (ControllerName (Value pt l)) params of
                    Inl p \<Rightarrow> Inl p
                  | Inr controllerName \<Rightarrow>
                      (case substWildcard (MethodName (Value pt l)) params of
                         Inl p \<Rightarrow> Inl p
                       | Inr methodName \<Rightarrow>
                           Inr (Some \<lparr> rm_Action = [],
                                       rm_ControllerName = controllerName,
                                       rm_MethodName = methodName,
                                       rm_FixedParams = FixedParams (Value pt l),
                                       rm_Params = params \<rparr>))))"
  by (simp add: Route_def Let_def)

subsection \<open>Explicit 404 routes\<close>

text \<open>
  C7.  For any path tree that returns no more expansions than the leaf has wildcards:
  when \<open>Find\<close> returns no leaf, \<open>Route\<close> returns nil; when it returns a leaf whose route
  has the action \<open>404\<close>, \<open>Route\<close> returns the sentinel \<open>notFound\<close>; the two results differ,
  and both are results, not panics.
\<close>

theorem Route_404_distinct_from_no_match:
  assumes "Find pt (Tree router) (treePath (req_Method req) (req_URL_Path req)) = (lf, exps)"
  shows "(lf = None \<longrightarrow> Route pt router req = Inr None)
       \<and> (\<forall>l. lf = Some l \<and> Action (Value pt l) = ''404''
                \<and> length exps \<le> length (Wildcards pt l)
              \<longrightarrow> Route pt router req = Inr (Some notFound))
       \<and> (Inr (Some notFound) :: panic + routematch option) \<noteq> Inr None"
proof (intro conjI allI impI)
  assume "lf = None"
  with assms show "Route pt router req = Inr None"
    by (simp add: Route_def)
next
  fix l
  assume h: "lf = Some l \<and> Action (Value pt l) = ''404''
     \<and> length exps \<le> length (Wildcards pt l)"
  then obtain params where "mkParams (Wildcards pt l) exps Map.empty = Inr params"
    using mkParams_Inr_iff by blast
  with h show "Route pt router req = Inr (Some notFound)"
    using Route_found[of pt router req l exps] assms by simp
qed simp

text \<open>
  The statement on the table \<open>GET /old/path 404\<close>, for the path \<open>/old/path\<close> and for the
  unmatched path \<open>/unknown\<close>.
\<close>

theorem Route_404_distinct_from_no_match_witness:
  "Route flat (refreshed [''GET /old/path 404''])
      \<lparr> req_Method = ''GET'', req_URL_Path = ''/old/path'' \<rparr> = Inr (Some notFound)
   \<and> Route flat (refreshed [''GET /old/path 404''])
      \<lparr> req_Method = ''GET'', req_URL_Path = ''/unknown'' \<rparr> = Inr None"
proof -
  let ?R = "refreshed [''GET /old/path 404'']"
  let ?r1 = "\<lparr> req_Method = ''GET'', req_URL_Path = ''/old/path'' \<rparr>"
  let ?r2 = "\<lparr> req_Method = ''GET'', req_URL_Path = ''/unknown'' \<rparr>"
  let ?l = "leafFor ''/GET/old/path''
              (route.truncate (NewRoute splitCommas ''GET'' ''/old/path'' ''404'' [] ''conf/routes'' 0
                 :: fleaf lroute))"
  have f1: "Find flat (Tree ?R) (treePath (req_Method ?r1) (req_URL_Path ?r1)) = (Some ?l, [])"
    by (simp add: parse_defs tree_defs leafFor_def Let_def)
  have f2: "Find flat (Tree ?R) (treePath (req_Method ?r2) (req_URL_Path ?r2)) = (None, [])"
    by (simp add: parse_defs tree_defs leafFor_def Let_def)
  have a: "Action (Value flat ?l) = ''404''" "length ([] :: string list) \<le> length (Wildcards flat ?l)"
    by (simp_all add: flat_def leafFor_def NewRoute_def route.truncate_def Let_def)
  from Route_404_distinct_from_no_match[OF f1] a
       Route_404_distinct_from_no_match[OF f2]
  show ?thesis by blast
qed

text \<open>
  C10.  When the matched route has the action \<open>404\<close>, the result is the sentinel
  \<open>notFound\<close>, whatever values the path captured and whatever fixed arguments the route
  declares: its parameters, fixed arguments, controller name and method name are
  empty.
\<close>

theorem Route_404_discards_captures:
  assumes "Find pt (Tree router) (treePath (req_Method req) (req_URL_Path req)) = (Some l, exps)"
    and "Action (Value pt l) = ''404''"
    and "length exps \<le> length (Wildcards pt l)"
  shows "\<exists>m. Route pt router req = Inr (Some m) \<and> m = notFound
            \<and> rm_Action m = ''404'' \<and> rm_Params m = Map.empty \<and> rm_FixedParams m = []
            \<and> rm_ControllerName m = [] \<and> rm_MethodName m = []"
proof -
  obtain params where "mkParams (Wildcards pt l) exps Map.empty = Inr params"
    using assms(3) mkParams_Inr_iff by blast
  with assms(2) have "Route pt router req = Inr (Some notFound)"
    using Route_found[OF assms(1)] by simp
  then show ?thesis by (simp add: notFound_def)
qed

text \<open>
  The statement on the table \<open>GET /old/:id 404(a,b)\<close> for the path \<open>/old/7\<close>: the captured
  \<open>7\<close> and the fixed arguments \<open>a\<close>, \<open>b\<close> do not reach the result.
\<close>

theorem Route_404_discards_captures_witness:
  "Route flat (refreshed [''GET /old/:id 404(a,b)''])
      \<lparr> req_Method = ''GET'', req_URL_Path = ''/old/7'' \<rparr> = Inr (Some notFound)
   \<and> rm_Params notFound = Map.empty \<and> rm_FixedParams notFound = []"
proof -
  let ?R = "refreshed [''GET /old/:id 404(a,b)'']"
  let ?req = "\<lparr> req_Method = ''GET'', req_URL_Path = ''/old/7'' \<rparr>"
  let ?l = "leafFor ''/GET/old/:id''
              (route.truncate (NewRoute splitCommas ''GET'' ''/old/:id'' ''404'' ''a,b'' ''conf/routes'' 0
                 :: fleaf lroute))"
  have f: "Find flat (Tree ?R) (treePath (req_Method ?req) (req_URL_Path ?req)) = (Some ?l, [''7''])"
    by (simp add: parse_defs tree_defs leafFor_def Let_def)
  have a: "Action (Value flat ?l) = ''404''"
    by (simp add: flat_def leafFor_def NewRoute_def route.truncate_def Let_def)
  have b: "length [''7''] \<le> length (Wildcards flat ?l)"
    by (simp add: flat_def leafFor_def elements_def isPlaceholder_def)
  from Route_404_discards_captures[OF f a b] show ?thesis by auto
qed

subsection \<open>Wildcard substitution\<close>

text \<open>
  C9.  For a matched route whose action is not \<open>404\<close> (the substitution step runs):
  when the controller name or the method name holds a colon and the name after its
  last colon is not among the captured wildcards, \<open>Route\<close> panics with an index out of
  range; when every such name is captured, and the expansions do not outnumber the
  wildcards, \<open>Route\<close> returns a match.
\<close>

theorem Route_panics_on_uncaptured_placeholder:
  assumes "Find pt (Tree router) (treePath (req_Method req) (req_URL_Path req)) = (Some l, exps)"
    and "Action (Value pt l) \<noteq> ''404''"
    and "captured = set (take (length exps) (Wildcards pt l))"
    and "cn = ControllerName (Value pt l)" and "mn = MethodName (Value pt l)"
  shows "((LastIndex cn CHR '':'' \<noteq> -1 \<and> drop (nat (LastIndex cn CHR '':'' + 1)) cn \<notin> captured)
          \<or> (LastIndex mn CHR '':'' \<noteq> -1 \<and> drop (nat (LastIndex mn CHR '':'' + 1)) mn \<notin> captured)
         \<longrightarrow> Route pt router req = Inl IndexOutOfRange)
       \<and> ((LastIndex cn CHR '':'' \<noteq> -1 \<longrightarrow> drop (nat (LastIndex cn CHR '':'' + 1)) cn \<in> captured)
          \<and> (LastIndex mn CHR '':'' \<noteq> -1 \<longrightarrow> drop (nat (LastIndex mn CHR '':'' + 1)) mn \<in> captured)
          \<and> length exps \<le> length (Wildcards pt l)
         \<longrightarrow> (\<exists>m. Route pt router req = Inr (Some m)))"
proof (cases "mkParams (Wildcards pt l) exps Map.empty")
  case (Inl p)
  have "p = IndexOutOfRange" using Inl by (rule mkParams_Inl)
  moreover have "\<not> length exps \<le> length (Wildcards pt l)"
    using Inl mkParams_Inr_iff[of "Wildcards pt l" exps Map.empty] by auto
  ultimately show ?thesis using Route_found[OF assms(1)] Inl by simp
next
  case (Inr params)
  have d: "dom params = captured"
    using mkParams_dom[OF Inr] assms(3) by simp
  have s: "\<And>k vs. params k = Some vs \<Longrightarrow> \<exists>v. vs = [v]"
    using mkParams_singleton[OF Inr] by blast
  have R: "Route pt router req =
      (case substWildcard cn params of
         Inl p \<Rightarrow> Inl p
       | Inr controllerName \<Rightarrow>
           (case substWildcard mn params of
              Inl p \<Rightarrow> Inl p
            | Inr methodName \<Rightarrow>
                Inr (Some \<lparr> rm_Action = [], rm_ControllerName = controllerName,
                            rm_MethodName = methodName,
                            rm_FixedParams = FixedParams (Value pt l),
                            rm_Params = params \<rparr>)))"
    unfolding assms(4,5) using Route_found[OF assms(1)] Inr assms(2) by simp
  show ?thesis
  proof (intro conjI impI)
    assume "(LastIndex cn CHR '':'' \<noteq> -1 \<and> drop (nat (LastIndex cn CHR '':'' + 1)) cn \<notin> captured)
          \<or> (LastIndex mn CHR '':'' \<noteq> -1 \<and> drop (nat (LastIndex mn CHR '':'' + 1)) mn \<notin> captured)"
    then consider
        (c) "LastIndex cn CHR '':'' \<noteq> -1" "drop (nat (LastIndex cn CHR '':'' + 1)) cn \<notin> dom params"
      | (m) "LastIndex mn CHR '':'' \<noteq> -1" "drop (nat (LastIndex mn CHR '':'' + 1)) mn \<notin> dom params"
      using d by blast
    then show "Route pt router req = Inl IndexOutOfRange"
    proof cases
      case c
      then show ?thesis
        by (simp add: R substWildcard_absent)
    next
      case m
      then have "substWildcard mn params = Inl IndexOutOfRange"
        by (rule substWildcard_absent)
      then show ?thesis
        by (cases "substWildcard cn params") (auto simp: R dest: substWildcard_Inl)
    qed
  next
    assume h: "(LastIndex cn CHR '':'' \<noteq> -1 \<longrightarrow> drop (nat (LastIndex cn CHR '':'' + 1)) cn \<in> captured)
          \<and> (LastIndex mn CHR '':'' \<noteq> -1 \<longrightarrow> drop (nat (LastIndex mn CHR '':'' + 1)) mn \<in> captured)
          \<and> length exps \<le> length (Wildcards pt l)"
    have ok: "\<exists>x. substWildcard name params = Inr x"
      if "LastIndex name CHR '':'' \<noteq> -1 \<longrightarrow> drop (nat (LastIndex name CHR '':'' + 1)) name \<in> captured"
      for name
    proof (cases "LastIndex name CHR '':'' = -1")
      case True
      then show ?thesis by (simp add: substWildcard_literal)
    next
      case False
      with that d obtain vs where "params (drop (nat (LastIndex name CHR '':'' + 1)) name) = Some vs"
        by auto
      with s obtain v where "params (drop (nat (LastIndex name CHR '':'' + 1)) name) = Some [v]"
        by blast
      with False show ?thesis by (auto simp: substWildcard_present)
    qed
    from ok[of cn] ok[of mn] h obtain x y where
      "substWildcard cn params = Inr x" "substWildcard mn params = Inr y" by blast
    then show "\<exists>m. Route pt router req = Inr (Some m)"
      by (simp add: R)
  qed
qed

text \<open>
  The statement on the table \<open>GET /foo :ctrl.Index\<close>, a variablized action on a path
  without placeholders, for the path \<open>/foo\<close>.
\<close>

theorem Route_panics_on_uncaptured_placeholder_witness:
  "Route flat (refreshed [''GET /foo :ctrl.Index''])
      \<lparr> req_Method = ''GET'', req_URL_Path = ''/foo'' \<rparr> = Inl IndexOutOfRange"
proof -
  let ?R = "refreshed [''GET /foo :ctrl.Index'']"
  let ?req = "\<lparr> req_Method = ''GET'', req_URL_Path = ''/foo'' \<rparr>"
  let ?l = "leafFor ''/GET/foo''
              (route.truncate (NewRoute splitCommas ''GET'' ''/foo'' '':ctrl.Index'' [] ''conf/routes'' 0
                 :: fleaf lroute))"
  have f: "Find flat (Tree ?R) (treePath (req_Method ?req) (req_URL_Path ?req)) = (Some ?l, [])"
    by (simp add: parse_defs tree_defs leafFor_def Let_def)
  have a: "Action (Value flat ?l) \<noteq> ''404''"
    by (simp add: flat_def leafFor_def NewRoute_def route.truncate_def Let_def)
  have c: "ControllerName (Value flat ?l) = '':ctrl''"
    by (simp add: flat_def leafFor_def NewRoute_def route.truncate_def Let_def stripSemicolon_def)
  have u: "LastIndex '':ctrl'' CHR '':'' \<noteq> -1
            \<and> drop (nat (LastIndex '':ctrl'' CHR '':'' + 1)) '':ctrl''
               \<notin> set (take (length ([] :: string list)) (Wildcards flat ?l))"
    by simp
  from Route_panics_on_uncaptured_placeholder[OF f a refl c[symmetric] refl] u
  show ?thesis by blast
qed

text \<open>
  C2, amended.  When the placeholders of the action are captured, \<open>Route\<close> returns a
  match whose controller name (and likewise method name) is the name of the route when
  that holds no colon, and otherwise the text before the last colon followed by the
  captured value: the colon and the placeholder name after it are both replaced, so a
  leading placeholder replaces the whole name.
\<close>

theorem Route_substitutes_after_prefix:
  assumes "Find pt (Tree router) (treePath (req_Method req) (req_URL_Path req)) = (Some l, exps)"
    and "Action (Value pt l) \<noteq> ''404''"
    and "length exps \<le> length (Wildcards pt l)"
    and "cn = ControllerName (Value pt l)" and "mn = MethodName (Value pt l)"
    and "LastIndex cn CHR '':'' \<noteq> -1
           \<longrightarrow> drop (nat (LastIndex cn CHR '':'' + 1)) cn \<in> set (take (length exps) (Wildcards pt l))"
    and "LastIndex mn CHR '':'' \<noteq> -1
           \<longrightarrow> drop (nat (LastIndex mn CHR '':'' + 1)) mn \<in> set (take (length exps) (Wildcards pt l))"
  shows "\<exists>params m.
           mkParams (Wildcards pt l) exps Map.empty = Inr params
         \<and> Route pt router req = Inr (Some m)
         \<and> rm_Params m = params
         \<and> rm_FixedParams m = FixedParams (Value pt l)
         \<and> (if LastIndex cn CHR '':'' = -1 then rm_ControllerName m = cn
            else (\<exists>v. params (drop (nat (LastIndex cn CHR '':'' + 1)) cn) = Some [v]
                     \<and> rm_ControllerName m = take (nat (LastIndex cn CHR '':'')) cn @ v))
         \<and> (if LastIndex mn CHR '':'' = -1 then rm_MethodName m = mn
            else (\<exists>v. params (drop (nat (LastIndex mn CHR '':'' + 1)) mn) = Some [v]
                     \<and> rm_MethodName m = take (nat (LastIndex mn CHR '':'')) mn @ v))"
proof -
  obtain params where p: "mkParams (Wildcards pt l) exps Map.empty = Inr params"
    using assms(3) mkParams_Inr_iff by blast
  from substWildcard_captured[OF p assms(6)] obtain c where
    c: "substWildcard cn params = Inr c"
    and c': "if LastIndex cn CHR '':'' = -1 then c = cn
            else (\<exists>v. params (drop (nat (LastIndex cn CHR '':'' + 1)) cn) = Some [v]
                     \<and> c = take (nat (LastIndex cn CHR '':'')) cn @ v)"
    by blast
  from substWildcard_captured[OF p assms(7)] obtain d where
    d: "substWildcard mn params = Inr d"
    and d': "if LastIndex mn CHR '':'' = -1 then d = mn
            else (\<exists>v. params (drop (nat (LastIndex mn CHR '':'' + 1)) mn) = Some [v]
                     \<and> d = take (nat (LastIndex mn CHR '':'')) mn @ v)"
    by blast
  have "Route pt router req =
      Inr (Some \<lparr> rm_Action = [], rm_ControllerName = c, rm_MethodName = d,
                  rm_FixedParams = FixedParams (Value pt l), rm_Params = params \<rparr>)"
    using Route_found[OF assms(1)] p assms(2) c d
    unfolding assms(4,5) by simp
  with p c' d' show ?thesis by auto
qed

text \<open>
  The amended statement on the table \<open>GET /admin/:ctrl Module:ctrl.Index\<close> for the path
  \<open>/admin/users\<close>.
\<close>

theorem Route_substitutes_after_prefix_witness:
  "\<exists>m. Route flat (refreshed [''GET /admin/:ctrl Module:ctrl.Index''])
          \<lparr> req_Method = ''GET'', req_URL_Path = ''/admin/users'' \<rparr> = Inr (Some m)
       \<and> rm_ControllerName m = ''Module'' @ ''users'' \<and> rm_MethodName m = ''Index''"
proof -
  let ?R = "refreshed [''GET /admin/:ctrl Module:ctrl.Index'']"
  let ?req = "\<lparr> req_Method = ''GET'', req_URL_Path = ''/admin/users'' \<rparr>"
  let ?l = "leafFor ''/GET/admin/:ctrl''
              (route.truncate (NewRoute splitCommas ''GET'' ''/admin/:ctrl'' ''Module:ctrl.Index'' []
                 ''conf/routes'' 0 :: fleaf lroute))"
  have f: "Find flat (Tree ?R) (treePath (req_Method ?req) (req_URL_Path ?req))
             = (Some ?l, [''users''])"
    by (simp add: parse_defs tree_defs leafFor_def Let_def)
  have a: "Action (Value flat ?l) \<noteq> ''404''"
    by (simp add: flat_def leafFor_def NewRoute_def route.truncate_def Let_def)
  have w: "Wildcards flat ?l = [''ctrl'']"
    by (simp add: flat_def leafFor_def elements_def isPlaceholder_def)
  have b: "length [''users''] \<le> length (Wildcards flat ?l)"
    by (simp add: w)
  have c: "ControllerName (Value flat ?l) = ''Module:ctrl''"
    by (simp add: flat_def leafFor_def NewRoute_def route.truncate_def Let_def stripSemicolon_def)
  have d: "MethodName (Value flat ?l) = ''Index''"
    by (simp add: flat_def leafFor_def NewRoute_def route.truncate_def Let_def stripSemicolon_def)
  have pc: "LastIndex ''Module:ctrl'' CHR '':'' = 6" by simp
  have pd: "LastIndex ''Index'' CHR '':'' = -1" by simp
  have hc: "LastIndex ''Module:ctrl'' CHR '':'' \<noteq> -1
           \<longrightarrow> drop (nat (LastIndex ''Module:ctrl'' CHR '':'' + 1)) ''Module:ctrl''
               \<in> set (take (length [''users'']) (Wildcards flat ?l))"
    by (simp add: w pc)
  have hd: "LastIndex ''Index'' CHR '':'' \<noteq> -1
           \<longrightarrow> drop (nat (LastIndex ''Index'' CHR '':'' + 1)) ''Index''
               \<in> set (take (length [''users'']) (Wildcards flat ?l))"
    by (simp add: pd)
  have mk: "mkParams (Wildcards flat ?l) [''users''] Map.empty = Inr [''ctrl'' \<mapsto> [''users'']]"
    by (simp add: w)
  from Route_substitutes_after_prefix[OF f a b c[symmetric] d[symmetric] hc hd]
  show ?thesis
    by (auto simp: pc pd mk)
qed

text \<open>
  C2 as it is written fails: on that table the path \<open>/admin/users\<close> resolves to the
  controller \<open>Moduleusers\<close>, not \<open>Module:users\<close>.
\<close>

theorem Route_admin_users_target:
  "Route flat (refreshed [''GET /admin/:ctrl Module:ctrl.Index''])
      \<lparr> req_Method = ''GET'', req_URL_Path = ''/admin/users'' \<rparr>
   = Inr (Some \<lparr> rm_Action = [], rm_ControllerName = ''Moduleusers'', rm_MethodName = ''Index'',
                 rm_FixedParams = [], rm_Params = [''ctrl'' \<mapsto> [''users'']] \<rparr>)"
  by (simp add: parse_defs tree_defs route_defs Let_def)

section \<open>Refreshing the table\<close>





text \<open>
  C4.  The routes file \<open>GET abc/def App.Index\<close>, whose path does not start with a slash:
  \<open>Refresh\<close> returns no error, the route is in the list of routes and in the tree under
  the key \<open>/GETabc/def\<close>, and a request with that key is matched to it.
\<close>

theorem relative_path_registered:
  "Refresh flat (exampleEnv [''GET abc/def App.Index'']) 1 (NewRouter flat ''conf/routes'')
     = Some (refreshed [''GET abc/def App.Index''], None)
   \<and> map Path (Routes (refreshed [''GET abc/def App.Index''])) = [''abc/def'']
   \<and> map fl_Elements (Tree (refreshed [''GET abc/def App.Index'']))
       = [[''GETabc'', ''def''], [''HEADabc'', ''def'']]
   \<and> Route flat (refreshed [''GET abc/def App.Index''])
        \<lparr> req_Method = ''GET'', req_URL_Path = ''abc/def'' \<rparr>
       = Inr (Some \<lparr> rm_Action = [], rm_ControllerName = [], rm_MethodName = [],
                     rm_FixedParams = [], rm_Params = Map.empty \<rparr>)"
  by (simp add: parse_defs tree_defs route_defs Let_def)

section \<open>The path tree of the spec\<close>

lemma flat_simps:
  "New flat = []" "Add flat = fAdd" "Find flat = fFind" "TreeReverse flat = fReverse"
  "Value flat = fl_Value" "Wildcards flat = fl_Wildcards"
  by (simp_all add: flat_def)

lemma fAdd_leafFor: "fAdd t key val =
     (if list_ex (\<lambda>l. sameShape (fl_Elements l) (elements key)) t
         then (t, None, Some ''duplicate path'')
         else (t @ [leafFor key val], Some (leafFor key val), None))"
  by (simp add: fAdd_def leafFor_def Let_def)

lemma registrations_Cons:
  "registrations (r # rs) =
     leafFor (TreePath r) (route.truncate r) #
       (if Method r = ''GET'' then [leafFor (treePath ''HEAD'' (Path r)) (route.truncate r)] else [])
       @ registrations rs"
  by (simp add: registrations_def)

lemma registrations_append:
  "registrations (xs @ ys) = registrations xs @ registrations ys"
  by (simp add: registrations_def)

lemma updateTreeLoop_Cons_ok:
  "updateTreeLoop pt e t (r # rs) = (t', rs', None) \<Longrightarrow>
     \<exists>t1 lf t2 rs''.
        Add pt t (TreePath r) (route.truncate r) = (t1, lf, None)
      \<and> (if Method r = ''GET''
         then (\<exists>lf2. Add pt t1 (treePath ''HEAD'' (Path r)) (route.truncate r) = (t2, lf2, None))
         else t2 = t1)
      \<and> updateTreeLoop pt e t2 rs = (t', rs'', None)
      \<and> rs' = r\<lparr>leaf := lf\<rparr> # rs''"
  by (auto simp: Let_def split: prod.splits option.splits if_splits)

lemma fAdd_ok:
  "fAdd t key v = (t1, lf, None) \<Longrightarrow> t1 = t @ [leafFor key v] \<and> lf = Some (leafFor key v)"
  by (simp add: fAdd_leafFor split: if_splits)

lemma updateTreeLoop_flat:
  "updateTreeLoop flat e t rs = (t', rs', None) \<Longrightarrow> t' = t @ registrations rs"
proof (induction rs arbitrary: t t' rs')
  case Nil
  then show ?case by (simp add: registrations_def)
next
  case (Cons r rs)
  have A: "Add flat = fAdd" by (simp add: flat_def)
  from updateTreeLoop_Cons_ok[OF Cons.prems] obtain t1 lf t2 rs'' where
    a1: "fAdd t (TreePath r) (route.truncate r) = (t1, lf, None)"
    and a2: "if Method r = ''GET''
         then (\<exists>lf2. fAdd t1 (treePath ''HEAD'' (Path r)) (route.truncate r) = (t2, lf2, None))
         else t2 = t1"
    and l: "updateTreeLoop flat e t2 rs = (t', rs'', None)"
    unfolding A by blast
  from a1 have t1: "t1 = t @ [leafFor (TreePath r) (route.truncate r)]"
    by (simp add: fAdd_ok)
  from a2 have t2: "t2 = t1 @ (if Method r = ''GET''
       then [leafFor (treePath ''HEAD'' (Path r)) (route.truncate r)] else [])"
    by (auto dest: fAdd_ok split: if_splits)
  from Cons.IH[OF l] t1 t2 show ?case
    by (simp add: registrations_Cons)
qed

lemma fFindElements_append:
  "fFindElements (xs @ ys) els =
     (case fFindElements xs els of
        (None, x) \<Rightarrow> fFindElements ys els
      | (Some l, x) \<Rightarrow> (Some l, x))"
  by (induction xs) (auto split: option.splits)

lemma fFindElements_none:
  "\<forall>l \<in> set xs. fmatch (fl_Elements l) els = None \<Longrightarrow> fFindElements xs els = (None, [])"
  by (induction xs) auto

lemma registrations_no_match:
  assumes own: "\<forall>x\<in>set rs. fmatch (elements (TreePath x)) els = None"
    and ali: "\<forall>x\<in>set rs. Method x = ''GET'' \<longrightarrow>
                  fmatch (elements (treePath ''HEAD'' (Path x))) els = None"
  shows "fFindElements (registrations rs) els = (None, [])"
proof (rule fFindElements_none)
  show "\<forall>l\<in>set (registrations rs). fmatch (fl_Elements l) els = None"
    using own ali by (auto simp: registrations_def leafFor_def split: if_splits)
qed

lemma Split_append_nosep:
  "sep \<notin> set a \<Longrightarrow> Split (a @ s) sep = (a @ hd (Split s sep)) # tl (Split s sep)"
  by (induction a) (auto split: list.splits)

lemma elements_method:
  "CHR ''/'' \<notin> set m \<Longrightarrow>
     elements (''/'' @ m @ s) = (m @ hd (Split s CHR ''/'')) # tl (Split s CHR ''/'')"
  by (simp add: elements_def Split_append_nosep)

lemma elements_GET:
  "elements (treePath ''GET'' s) = (''GET'' @ hd (Split s CHR ''/'')) # tl (Split s CHR ''/'')"
  using elements_method[of "''GET''" s] by (simp add: treePath_def)

lemma elements_HEAD:
  "elements (treePath ''HEAD'' s) = (''HEAD'' @ hd (Split s CHR ''/'')) # tl (Split s CHR ''/'')"
  using elements_method[of "''HEAD''" s] by (simp add: treePath_def)

lemma fmatch_HEAD_GET:
  "fmatch (elements (treePath ''HEAD'' pat)) (elements (treePath ''HEAD'' p))
     = fmatch (elements (treePath ''GET'' pat)) (elements (treePath ''GET'' p))"
  by (simp add: elements_GET elements_HEAD isPlaceholder_def)

lemma fmatch_HEAD_key_GET_request:
  "fmatch (elements (treePath ''HEAD'' pat)) (elements (treePath ''GET'' p)) = None"
  by (simp add: elements_GET elements_HEAD isPlaceholder_def)

lemma fmatch_GET_key_HEAD_request:
  "fmatch (elements (treePath ''GET'' pat)) (elements (treePath ''HEAD'' p)) = None"
  by (simp add: elements_GET elements_HEAD isPlaceholder_def)

lemma wildcards_HEAD_GET:
  "fl_Wildcards (leafFor (treePath ''HEAD'' pat) v) = fl_Wildcards (leafFor (treePath ''GET'' pat) v)"
  by (simp add: leafFor_def elements_GET elements_HEAD isPlaceholder_def)

lemma Route_flat:
  assumes "fFindElements (Tree router) (elements (treePath (req_Method req) (req_URL_Path req)))
             = (Some l, exps)"
    and "fl_Wildcards l = ws" and "fl_Value l = v"
  shows "Route flat router req =
       (case mkParams ws exps Map.empty of
          Inl p \<Rightarrow> Inl p
        | Inr params \<Rightarrow>
            if Action v = ''404'' then Inr (Some notFound)
            else (case substWildcard (ControllerName v) params of
                    Inl p \<Rightarrow> Inl p
                  | Inr controllerName \<Rightarrow>
                      (case substWildcard (MethodName v) params of
                         Inl p \<Rightarrow> Inl p
                       | Inr methodName \<Rightarrow>
                           Inr (Some \<lparr> rm_Action = [],
                                       rm_ControllerName = controllerName,
                                       rm_MethodName = methodName,
                                       rm_FixedParams = FixedParams v,
                                       rm_Params = params \<rparr>))))"
proof -
  have "Find flat (Tree router) (treePath (req_Method req) (req_URL_Path req)) = (Some l, exps)"
    using assms(1) by (simp add: flat_simps fFind_def)
  from Route_found[OF this] show ?thesis
    unfolding flat_simps assms(2,3) .
qed

lemma HasPrefix_slash: "HasPrefix p ''/'' \<longleftrightarrow> (\<exists>p'. p = CHR ''/'' # p')"
  by (cases p) auto

lemma Split_slash:
  "HasPrefix p ''/'' \<Longrightarrow> hd (Split p CHR ''/'') = [] \<and> tl (Split p CHR ''/'') = elements p"
  by (auto simp: HasPrefix_slash elements_def)

lemma elements_treePath:
  assumes "CHR ''/'' \<notin> set m" and "HasPrefix q ''/''"
  shows "elements (treePath m q) = (if m = ''*'' then '':METHOD'' else m) # elements q"
proof -
  let ?m = "if m = ''*'' then '':METHOD'' else m"
  have "CHR ''/'' \<notin> set ?m" using assms(1) by simp
  from elements_method[OF this, of q] Split_slash[OF assms(2)] show ?thesis
    by (simp add: treePath_def)
qed

text \<open>
  This tree keeps the contract that the theorems on \<open>Route\<close> assume of a path tree:
  \<open>Find\<close> returns one expansion for each wildcard of the leaf.
\<close>

lemma fmatch_length:
  "fmatch pat els = Some exps \<Longrightarrow> length exps = length (filter isPlaceholder pat)"
  by (induction pat els arbitrary: exps rule: fmatch.induct) (auto split: if_splits)

lemma fFindElements_leaf:
  "fFindElements t els = (Some l, exps) \<Longrightarrow> l \<in> set t \<and> fmatch (fl_Elements l) els = Some exps"
  by (induction t) (auto split: option.splits)

lemma registrations_leafFor:
  "l \<in> set (registrations rs) \<Longrightarrow> \<exists>key v. l = leafFor key v"
  by (auto simp: registrations_def split: if_splits)

lemma flat_expansions_contract:
  assumes "updateTree flat e router = (router', None)"
    and "Find flat (Tree router') key = (Some l, exps)"
  shows "length exps = length (Wildcards flat l)"
proof -
  obtain t rs' where l: "updateTreeLoop flat e (New flat) (Routes router) = (t, rs', None)"
    and r': "router' = router\<lparr>Routes := rs', Tree := t\<rparr>"
    using assms(1) by (auto simp: updateTree_def split: prod.splits)
  from updateTreeLoop_flat[OF l] have t: "Tree router' = registrations (Routes router)"
    using r' by (simp add: flat_simps)
  from assms(2) have "fFindElements (Tree router') (elements key) = (Some l, exps)"
    by (simp add: flat_simps fFind_def)
  from fFindElements_leaf[OF this] have m: "l \<in> set (registrations (Routes router))"
    "fmatch (fl_Elements l) (elements key) = Some exps"
    using t by simp_all
  from registrations_leafFor[OF m(1)] obtain k v where "l = leafFor k v" by blast
  then have "fl_Wildcards l = map tl (filter isPlaceholder (fl_Elements l))"
    by (simp add: leafFor_def)
  with fmatch_length[OF m(2)] show ?thesis by (simp add: flat_simps)
qed

subsection \<open>HEAD requests\<close>

text \<open>
  C6, amended.  After a successful \<open>updateTree\<close> on routes whose keys are the ones
  \<open>NewRoute\<close> computes, let \<open>r\<close> be a \<open>GET\<close> route that is the first route whose key matches
  the \<open>GET\<close> request for a path.  If no route declared before \<open>r\<close> matches the \<open>HEAD\<close>
  request for that path under its own key, then the \<open>HEAD\<close> request and the \<open>GET\<close> request
  find leafs of the same route with the same expansions, and \<open>Route\<close> returns the same
  result for both.
\<close>

theorem HEAD_resolves_as_GET:
  assumes ok: "updateTree flat e router = (router', None)"
    and rs: "Routes router = before @ r # after"
    and keys: "\<forall>x\<in>set (before @ [r]). TreePath x = treePath (Method x) (Path x)"
    and get: "Method r = ''GET''"
    and first: "\<forall>x\<in>set before.
                  fmatch (elements (TreePath x)) (elements (treePath ''GET'' p)) = None"
    and matches: "fmatch (elements (TreePath r)) (elements (treePath ''GET'' p)) = Some exps"
    and nohead: "\<forall>x\<in>set before.
                  fmatch (elements (TreePath x)) (elements (treePath ''HEAD'' p)) = None"
  shows "Route flat router' \<lparr> req_Method = ''HEAD'', req_URL_Path = p \<rparr>
           = Route flat router' \<lparr> req_Method = ''GET'', req_URL_Path = p \<rparr>
       \<and> (\<exists>l. Find flat (Tree router') (treePath ''HEAD'' p) = (Some l, exps)
              \<and> Value flat l = route.truncate r)
       \<and> (\<exists>l. Find flat (Tree router') (treePath ''GET'' p) = (Some l, exps)
              \<and> Value flat l = route.truncate r)"
proof -
  let ?kG = "elements (treePath ''GET'' p)" and ?kH = "elements (treePath ''HEAD'' p)"
  let ?lG = "leafFor (TreePath r) (route.truncate r)"
  let ?lH = "leafFor (treePath ''HEAD'' (Path r)) (route.truncate r)"
  obtain t rs' where l: "updateTreeLoop flat e (New flat) (Routes router) = (t, rs', None)"
    and r': "router' = router\<lparr>Routes := rs', Tree := t\<rparr>"
    using ok by (auto simp: updateTree_def split: prod.splits)
  have "New flat = []" by (simp add: flat_def)
  with updateTreeLoop_flat[OF l] rs
  have t: "t = registrations before @ ?lG # ?lH # registrations after"
    by (simp add: registrations_append registrations_Cons get)
  have rkey: "TreePath r = treePath ''GET'' (Path r)"
    using keys get by simp
  have bkey: "\<And>x. x \<in> set before \<Longrightarrow> Method x = ''GET''
                 \<Longrightarrow> TreePath x = treePath ''GET'' (Path x)"
    using keys by auto
  have bG: "fFindElements (registrations before) ?kG = (None, [])"
    using first by (intro registrations_no_match) (auto simp: fmatch_HEAD_key_GET_request)
  have bH: "fFindElements (registrations before) ?kH = (None, [])"
  proof (intro registrations_no_match ballI impI)
    fix x assume x: "x \<in> set before"
    show "fmatch (elements (TreePath x)) ?kH = None" using nohead x by blast
    assume "Method x = ''GET''"
    with x first bkey[OF x] show "fmatch (elements (treePath ''HEAD'' (Path x))) ?kH = None"
      by (auto simp: fmatch_HEAD_GET)
  qed
  have mG: "fmatch (fl_Elements ?lG) ?kG = Some exps"
    using matches by (simp add: leafFor_def)
  have nG: "fmatch (fl_Elements ?lG) ?kH = None"
    by (simp add: leafFor_def rkey fmatch_GET_key_HEAD_request)
  have mH: "fmatch (fl_Elements ?lH) ?kH = Some exps"
    using matches by (simp add: leafFor_def rkey fmatch_HEAD_GET)
  have fG: "fFindElements t ?kG = (Some ?lG, exps)"
    by (simp add: t fFindElements_append bG mG)
  have fH: "fFindElements t ?kH = (Some ?lH, exps)"
    by (simp add: t fFindElements_append bH nG mH)
  have w: "fl_Wildcards ?lH = fl_Wildcards ?lG"
    by (simp add: rkey wildcards_HEAD_GET)
  have v: "fl_Value ?lH = route.truncate r" "fl_Value ?lG = route.truncate r"
    by (simp_all add: leafFor_def)
  have T: "Tree router' = t" using r' by simp
  have "Route flat router' \<lparr> req_Method = ''HEAD'', req_URL_Path = p \<rparr>
           = Route flat router' \<lparr> req_Method = ''GET'', req_URL_Path = p \<rparr>"
    using Route_flat[of router' "\<lparr> req_Method = ''HEAD'', req_URL_Path = p \<rparr>" ?lH exps
                     "fl_Wildcards ?lG" "route.truncate r"]
          Route_flat[of router' "\<lparr> req_Method = ''GET'', req_URL_Path = p \<rparr>" ?lG exps
                     "fl_Wildcards ?lG" "route.truncate r"]
          fG fH
    by (simp add: T w v)
  moreover have "Find flat (Tree router') (treePath ''HEAD'' p) = (Some ?lH, exps)"
    using fH by (simp add: T flat_def fFind_def)
  moreover have "Find flat (Tree router') (treePath ''GET'' p) = (Some ?lG, exps)"
    using fG by (simp add: T flat_def fFind_def)
  moreover have "Value flat ?lH = route.truncate r" "Value flat ?lG = route.truncate r"
    by (simp_all add: flat_def leafFor_def)
  ultimately show ?thesis by blast
qed

text \<open>
  The amended statement on the table \<open>POST /foo/:id App.Save\<close>, \<open>GET /foo/:id App.Show\<close> for
  the path \<open>/foo/7\<close>.
\<close>

theorem HEAD_resolves_as_GET_witness:
  "Route flat (refreshed [''POST /foo/:id App.Save'', ''GET /foo/:id App.Show''])
      \<lparr> req_Method = ''HEAD'', req_URL_Path = ''/foo/7'' \<rparr>
   = Route flat (refreshed [''POST /foo/:id App.Save'', ''GET /foo/:id App.Show''])
      \<lparr> req_Method = ''GET'', req_URL_Path = ''/foo/7'' \<rparr>"
proof -
  let ?ls = "[''POST /foo/:id App.Save'', ''GET /foo/:id App.Show'']"
  let ?b = "NewRoute splitCommas ''POST'' ''/foo/:id'' ''App.Save'' [] ''conf/routes'' 0 :: fleaf lroute"
  let ?r = "NewRoute splitCommas ''GET'' ''/foo/:id'' ''App.Show'' [] ''conf/routes'' 1 :: fleaf lroute"
  let ?router = "(NewRouter flat ''conf/routes'') \<lparr> Routes := [?b, ?r] \<rparr>"
  have ok: "updateTree flat (exampleEnv ?ls) ?router = (refreshed ?ls, None)"
    by (simp add: parse_defs tree_defs Let_def)
  have rs: "Routes ?router = [?b] @ ?r # []" by simp
  have keys: "\<forall>x\<in>set ([?b] @ [?r]). TreePath x = treePath (Method x) (Path x)"
    by (simp add: NewRoute_def Let_def)
  have get: "Method ?r = ''GET''"
    by (simp add: NewRoute_def Let_def ToUpper_def upper_char_def)
  have first: "\<forall>x\<in>set [?b].
                  fmatch (elements (TreePath x)) (elements (treePath ''GET'' ''/foo/7'')) = None"
    by (simp add: parse_defs elements_def isPlaceholder_def Let_def)
  have matches: "fmatch (elements (TreePath ?r)) (elements (treePath ''GET'' ''/foo/7'')) = Some [''7'']"
    by (simp add: parse_defs elements_def isPlaceholder_def Let_def)
  have nohead: "\<forall>x\<in>set [?b].
                  fmatch (elements (TreePath x)) (elements (treePath ''HEAD'' ''/foo/7'')) = None"
    by (simp add: parse_defs elements_def isPlaceholder_def Let_def)
  from HEAD_resolves_as_GET[OF ok rs keys get first matches nohead]
  show ?thesis by blast
qed

text \<open>
  C6 as it is written fails: on the table \<open>HEAD /:x Other.Head\<close>, \<open>GET /foo App.Index\<close>, which
  is registered without an error, the \<open>GET\<close> request for \<open>/foo\<close> resolves to \<open>App.Index\<close> and
  the \<open>HEAD\<close> request to \<open>Other.Head\<close>, the rule declared first.
\<close>

theorem HEAD_differs_from_GET:
  "Route flat (refreshed [''HEAD /:x Other.Head'', ''GET /foo App.Index''])
      \<lparr> req_Method = ''GET'', req_URL_Path = ''/foo'' \<rparr>
     = Inr (Some \<lparr> rm_Action = [], rm_ControllerName = ''App'', rm_MethodName = ''Index'',
                   rm_FixedParams = [], rm_Params = Map.empty \<rparr>)
   \<and> Route flat (refreshed [''HEAD /:x Other.Head'', ''GET /foo App.Index''])
      \<lparr> req_Method = ''HEAD'', req_URL_Path = ''/foo'' \<rparr>
     = Inr (Some \<lparr> rm_Action = [], rm_ControllerName = ''Other'', rm_MethodName = ''Head'',
                   rm_FixedParams = [], rm_Params = [''x'' \<mapsto> [''foo'']] \<rparr>)
   \<and> Refresh flat (exampleEnv [''HEAD /:x Other.Head'', ''GET /foo App.Index'']) 1
        (NewRouter flat ''conf/routes'')
     = Some (refreshed [''HEAD /:x Other.Head'', ''GET /foo App.Index''], None)"
  by (simp add: parse_defs tree_defs route_defs Let_def)

section \<open>Reverse routing\<close>

lemma ToUpper_star: "ToUpper ''*'' = ''*''"
  by (simp add: ToUpper_def upper_char_def)

lemma NewRoute_star:
  "Method (NewRoute cs ''*'' p a f rp n) = ''*''
   \<and> TreePath (NewRoute cs ''*'' p a f rp n) = ''/:METHOD'' @ p"
  by (simp add: NewRoute_def Let_def ToUpper_star treePath_def)

lemma reverseRoute_Some:
  "reverseRoute pt encode t r cn mn action args = Inr (Some d)
     \<Longrightarrow> \<exists>args'. d = reverseResult pt encode t r action args'"
  by (auto simp: reverseRoute_def Let_def split: if_splits sum.splits bool.splits)

lemma reverseResult_method:
  "ad_Method (reverseResult pt encode t r action args) = (if Method r = ''*'' then ''GET'' else Method r)
   \<and> ad_Star (reverseResult pt encode t r action args) = (Method r = ''*'')
   \<and> ad_Action (reverseResult pt encode t r action args) = action
   \<and> ad_Args (reverseResult pt encode t r action args) = args"
  by (simp add: reverseResult_def Let_def split: prod.splits)

lemma reverseLoop_first:
  "\<forall>x\<in>set before. reverseRoute pt encode t x cn mn action args = Inr None
     \<Longrightarrow> reverseRoute pt encode t r cn mn action args \<noteq> Inr None
     \<Longrightarrow> reverseLoop pt encode t (before @ r # after) cn mn action args
           = reverseRoute pt encode t r cn mn action args"
  by (induction before) (auto split: sum.splits option.splits)

lemma Reverse_through:
  assumes "Routes R = bef @ x # aft"
    and "Split action CHR ''.'' = [cn, mn]"
    and "\<forall>y\<in>set bef. reverseRoute pt encode (Tree R) y cn mn action args = Inr None"
    and "reverseRoute pt encode (Tree R) x cn mn action args = Inr (Some d)"
  shows "Reverse pt encode R action args = Inr (Some d)"
proof -
  have "reverseLoop pt encode (Tree R) (bef @ x # aft) cn mn action args
          = reverseRoute pt encode (Tree R) x cn mn action args"
    using assms(3,4) by (intro reverseLoop_first) auto
  then show ?thesis
    using assms(1,2,4) by (simp add: Reverse_def Let_def)
qed

lemma Route_flat_not_nil:
  assumes "fFindElements (Tree router) (elements (treePath (req_Method req) (req_URL_Path req)))
             = (Some l, exps)"
  shows "Route flat router req \<noteq> Inr None"
  using Route_flat[OF assms refl refl]
  by (auto simp: split: sum.splits)

text \<open>
  C8.  A route declared with the method \<open>*\<close> has the key \<open>/:METHOD\<close> followed by its
  path.  After a successful \<open>updateTree\<close>, for every request method without a slash and
  every request path that the path pattern of the route matches: the key of the route
  matches the key of the request and captures the method first; when no route
  declared before it matches the request, \<open>Find\<close> returns the leaf of the route and
  \<open>Route\<close> does not return nil, and for a literal action other than \<open>404\<close> it returns
  the match with the controller, method and fixed arguments of the route.  When the
  loop of \<open>Reverse\<close> skips the routes before a route with the method \<open>*\<close> and returns
  through it, \<open>Reverse\<close> returns that result, with the method \<open>GET\<close> and the flag \<open>Star\<close>
  set.
\<close>

theorem star_rule_any_method:
  fixes router router' :: "(fleaf list, fleaf) router" and r :: "fleaf lroute"
    and pt :: "('t, 'l) pathtree"
  assumes ok: "updateTree flat e router = (router', None)"
    and rs: "Routes router = before @ r # after"
    and star: "Method r = ''*''"
    and key: "TreePath r = treePath (Method r) (Path r)"
    and p: "HasPrefix (Path r) ''/''" and q: "HasPrefix q ''/''" and m: "CHR ''/'' \<notin> set m"
    and pm: "fmatch (elements (Path r)) (elements q) = Some exps"
    and first: "\<forall>x\<in>set before.
        fmatch (elements (TreePath x)) (elements (treePath m q)) = None
        \<and> (Method x = ''GET'' \<longrightarrow>
              fmatch (elements (treePath ''HEAD'' (Path x))) (elements (treePath m q)) = None)"
    and m': "m' = (if m = ''*'' then '':METHOD'' else m)"
  shows "Method (NewRoute cs ''*'' pat a f rp n :: 'l lroute) = ''*''
       \<and> TreePath (NewRoute cs ''*'' pat a f rp n :: 'l lroute) = ''/:METHOD'' @ pat
       \<and> TreePath r = ''/:METHOD'' @ Path r
       \<and> fmatch (elements (TreePath r)) (elements (treePath m q)) = Some (m' # exps)
       \<and> Find flat (Tree router') (treePath m q)
           = (Some (leafFor (TreePath r) (route.truncate r)), m' # exps)
       \<and> Route flat router' \<lparr> req_Method = m, req_URL_Path = q \<rparr> \<noteq> Inr None
       \<and> (Action r \<noteq> ''404'' \<and> LastIndex (ControllerName r) CHR '':'' = -1
            \<and> LastIndex (MethodName r) CHR '':'' = -1
          \<longrightarrow> (\<exists>params.
                 mkParams (''METHOD'' # map tl (filter isPlaceholder (elements (Path r))))
                   (m' # exps) Map.empty = Inr params
               \<and> Route flat router' \<lparr> req_Method = m, req_URL_Path = q \<rparr>
                   = Inr (Some \<lparr> rm_Action = [], rm_ControllerName = ControllerName r,
                                 rm_MethodName = MethodName r, rm_FixedParams = FixedParams r,
                                 rm_Params = params \<rparr>)))
       \<and> (\<forall>(R :: ('t, 'l) router) bef x aft cn mn action args d.
             Routes R = bef @ x # aft \<and> Split action CHR ''.'' = [cn, mn] \<and> Method x = ''*''
             \<and> (\<forall>y\<in>set bef. reverseRoute pt encode (Tree R) y cn mn action args = Inr None)
             \<and> reverseRoute pt encode (Tree R) x cn mn action args = Inr (Some d)
           \<longrightarrow> Reverse pt encode R action args = Inr (Some d)
               \<and> ad_Method d = ''GET'' \<and> ad_Star d)"
proof -
  let ?k = "elements (treePath m q)"
  let ?l = "leafFor (TreePath r) (route.truncate r)"
  let ?req = "\<lparr> req_Method = m, req_URL_Path = q \<rparr>"
  have n1: "Method (NewRoute cs ''*'' pat a f rp n :: 'l lroute) = ''*''"
    and n2: "TreePath (NewRoute cs ''*'' pat a f rp n :: 'l lroute) = ''/:METHOD'' @ pat"
    by (simp_all add: NewRoute_star)
  have tp: "TreePath r = ''/:METHOD'' @ Path r"
    using key star by (simp add: treePath_def)
  have ek: "elements (TreePath r) = '':METHOD'' # elements (Path r)"
    using elements_treePath[of "''*''" "Path r"] p key star by simp
  have eq: "?k = m' # elements q"
    using elements_treePath[OF m q] m' by simp
  have fm: "fmatch (elements (TreePath r)) ?k = Some (m' # exps)"
    using pm by (simp add: ek eq isPlaceholder_def)
  obtain t rs' where l: "updateTreeLoop flat e (New flat) (Routes router) = (t, rs', None)"
    and r': "router' = router\<lparr>Routes := rs', Tree := t\<rparr>"
    using ok by (auto simp: updateTree_def split: prod.splits)
  have t: "t = registrations before @ ?l # registrations after"
    using updateTreeLoop_flat[OF l] rs star
    by (simp add: flat_simps registrations_append registrations_Cons)
  have b: "fFindElements (registrations before) ?k = (None, [])"
    using first by (intro registrations_no_match) auto
  have fl: "fmatch (fl_Elements ?l) ?k = Some (m' # exps)"
    using fm by (simp add: leafFor_def)
  have ff: "fFindElements (Tree router') ?k = (Some ?l, m' # exps)"
    using r' by (simp add: t fFindElements_append b fl)
  then have find: "Find flat (Tree router') (treePath m q) = (Some ?l, m' # exps)"
    by (simp add: flat_simps fFind_def)
  have ff': "fFindElements (Tree router')
               (elements (treePath (req_Method ?req) (req_URL_Path ?req))) = (Some ?l, m' # exps)"
    using ff by simp
  have nn: "Route flat router' ?req \<noteq> Inr None"
    using ff' by (rule Route_flat_not_nil)
  have ws: "fl_Wildcards ?l = ''METHOD'' # map tl (filter isPlaceholder (elements (Path r)))"
    by (simp add: leafFor_def ek isPlaceholder_def)
  have v: "fl_Value ?l = route.truncate r" by (simp add: leafFor_def)
  have sel: "Action (route.truncate r) = Action r"
    "ControllerName (route.truncate r) = ControllerName r"
    "MethodName (route.truncate r) = MethodName r"
    "FixedParams (route.truncate r) = FixedParams r"
    by (simp_all add: route.truncate_def)
  have lit: "\<exists>params.
                 mkParams (''METHOD'' # map tl (filter isPlaceholder (elements (Path r))))
                   (m' # exps) Map.empty = Inr params
               \<and> Route flat router' ?req
                   = Inr (Some \<lparr> rm_Action = [], rm_ControllerName = ControllerName r,
                                 rm_MethodName = MethodName r, rm_FixedParams = FixedParams r,
                                 rm_Params = params \<rparr>)"
    if h: "Action r \<noteq> ''404'' \<and> LastIndex (ControllerName r) CHR '':'' = -1
            \<and> LastIndex (MethodName r) CHR '':'' = -1"
  proof -
    have "length (m' # exps) \<le> length (''METHOD'' # map tl (filter isPlaceholder (elements (Path r))))"
      using fmatch_length[OF pm] by simp
    then obtain params where mk:
      "mkParams (''METHOD'' # map tl (filter isPlaceholder (elements (Path r))))
         (m' # exps) Map.empty = Inr params"
      using mkParams_Inr_iff by blast
    have "Route flat router' ?req
            = Inr (Some \<lparr> rm_Action = [], rm_ControllerName = ControllerName r,
                          rm_MethodName = MethodName r, rm_FixedParams = FixedParams r,
                          rm_Params = params \<rparr>)"
      using Route_flat[OF ff' ws v] mk h
      by (simp add: sel substWildcard_literal)
    with mk show ?thesis by blast
  qed
  have rev: "Reverse pt encode R action args = Inr (Some d) \<and> ad_Method d = ''GET'' \<and> ad_Star d"
    if h: "Routes R = bef @ x # aft \<and> Split action CHR ''.'' = [cn, mn] \<and> Method x = ''*''
             \<and> (\<forall>y\<in>set bef. reverseRoute pt encode (Tree R) y cn mn action args = Inr None)
             \<and> reverseRoute pt encode (Tree R) x cn mn action args = Inr (Some d)"
    for R :: "('t, 'l) router" and bef x aft cn mn action args d
  proof -
    from h have a: "Routes R = bef @ x # aft" "Split action CHR ''.'' = [cn, mn]"
      "\<forall>y\<in>set bef. reverseRoute pt encode (Tree R) y cn mn action args = Inr None"
      "reverseRoute pt encode (Tree R) x cn mn action args = Inr (Some d)"
      and sx: "Method x = ''*''"
      by simp_all
    from reverseRoute_Some[OF a(4)] obtain args' where
      "d = reverseResult pt encode (Tree R) x action args'" ..
    with sx have "ad_Method d = ''GET''" "ad_Star d"
      by (simp_all add: reverseResult_method)
    with Reverse_through[OF a] show ?thesis by simp
  qed
  from n1 n2 tp fm find nn lit rev show ?thesis by blast
qed

text \<open>
  The statement on the table \<open>* /x/:id App.Show\<close>: \<open>Route\<close> on a \<open>PUT\<close> request for \<open>/x/5\<close>,
  and \<open>Reverse\<close> of \<open>App.Show\<close> with \<open>id = 5\<close>.
\<close>

theorem star_rule_any_method_witness:
  "Route flat (refreshed [''* /x/:id App.Show''])
      \<lparr> req_Method = ''PUT'', req_URL_Path = ''/x/5'' \<rparr>
     = Inr (Some \<lparr> rm_Action = [], rm_ControllerName = ''App'', rm_MethodName = ''Show'',
                   rm_FixedParams = [],
                   rm_Params = [''METHOD'' \<mapsto> [''PUT''], ''id'' \<mapsto> [''5'']] \<rparr>)
   \<and> Reverse flat exampleEncode (refreshed [''* /x/:id App.Show'']) ''App.Show''
        (Some [(''id'', ''5'')])
      = Inr (Some \<lparr> ad_Host = ''TODO'', ad_Method = ''GET'', ad_Url = ''/x/5'',
                    ad_Action = ''App.Show'', ad_Star = True,
                    ad_Args = Some [(''id'', ''5'')] \<rparr>)"
proof -
  let ?ls = "[''* /x/:id App.Show'']"
  let ?R = "refreshed ?ls"
  let ?r = "NewRoute splitCommas ''*'' ''/x/:id'' ''App.Show'' [] ''conf/routes'' 0 :: fleaf lroute"
  let ?router = "(NewRouter flat ''conf/routes'') \<lparr> Routes := [?r] \<rparr>"
  let ?x = "?r \<lparr> leaf := Some (leafFor ''/:METHOD/x/:id'' (route.truncate ?r)) \<rparr>"
  let ?D = "\<lparr> ad_Host = ''TODO'', ad_Method = ''GET'', ad_Url = ''/x/5'',
              ad_Action = ''App.Show'', ad_Star = True, ad_Args = Some [(''id'', ''5'')] \<rparr>"
  have ok: "updateTree flat (exampleEnv ?ls) ?router = (?R, None)"
    by (simp add: parse_defs tree_defs Let_def)
  have rs: "Routes ?router = [] @ ?r # []" by simp
  have star: "Method ?r = ''*''" by (simp add: NewRoute_star)
  have pth: "Path ?r = ''/x/:id''" by (simp add: NewRoute_def Let_def)
  have key: "TreePath ?r = treePath (Method ?r) (Path ?r)"
    by (simp add: NewRoute_def Let_def)
  have p: "HasPrefix (Path ?r) ''/''" by (simp add: pth)
  have q: "HasPrefix ''/x/5'' ''/''" by simp
  have m: "CHR ''/'' \<notin> set ''PUT''" by simp
  have pm: "fmatch (elements (Path ?r)) (elements ''/x/5'') = Some [''5'']"
    by (simp add: pth elements_def isPlaceholder_def)
  have first: "\<forall>x\<in>set ([] :: fleaf lroute list).
        fmatch (elements (TreePath x)) (elements (treePath ''PUT'' ''/x/5'')) = None
        \<and> (Method x = ''GET'' \<longrightarrow>
              fmatch (elements (treePath ''HEAD'' (Path x))) (elements (treePath ''PUT'' ''/x/5'')) = None)"
    by simp
  have m': "''PUT'' = (if ''PUT'' = ''*'' then '':METHOD'' else ''PUT'')" by simp
  note T = star_rule_any_method[OF ok rs star key p q m pm first m',
             where pt = flat and encode = exampleEncode]
  have names: "Action ?r \<noteq> ''404'' \<and> LastIndex (ControllerName ?r) CHR '':'' = -1
            \<and> LastIndex (MethodName ?r) CHR '':'' = -1"
    by (simp add: NewRoute_def Let_def stripSemicolon_def)
  have vals: "ControllerName ?r = ''App''" "MethodName ?r = ''Show''" "FixedParams ?r = []"
    by (simp_all add: NewRoute_def Let_def stripSemicolon_def splitCommas_def)
  have mk: "mkParams (''METHOD'' # map tl (filter isPlaceholder (elements (Path ?r))))
              [''PUT'', ''5''] Map.empty = Inr [''METHOD'' \<mapsto> [''PUT''], ''id'' \<mapsto> [''5'']]"
    by (simp add: pth elements_def isPlaceholder_def)
  from T names obtain params where
    "mkParams (''METHOD'' # map tl (filter isPlaceholder (elements (Path ?r))))
        [''PUT'', ''5''] Map.empty = Inr params"
    and "Route flat ?R \<lparr> req_Method = ''PUT'', req_URL_Path = ''/x/5'' \<rparr>
           = Inr (Some \<lparr> rm_Action = [], rm_ControllerName = ControllerName ?r,
                         rm_MethodName = MethodName ?r, rm_FixedParams = FixedParams ?r,
                         rm_Params = params \<rparr>)"
    by blast
  with mk have route: "Route flat ?R \<lparr> req_Method = ''PUT'', req_URL_Path = ''/x/5'' \<rparr>
     = Inr (Some \<lparr> rm_Action = [], rm_ControllerName = ''App'', rm_MethodName = ''Show'',
                   rm_FixedParams = [],
                   rm_Params = [''METHOD'' \<mapsto> [''PUT''], ''id'' \<mapsto> [''5'']] \<rparr>)"
    by (simp add: vals)
  have Rs: "Routes ?R = [] @ ?x # []"
    by (simp add: parse_defs tree_defs Let_def)
  have sp: "Split ''App.Show'' CHR ''.'' = [''App'', ''Show'']" by simp
  have sx: "Method ?x = ''*''" by (simp add: NewRoute_star)
  have none: "\<forall>y\<in>set ([] :: fleaf lroute list).
      reverseRoute flat exampleEncode (Tree ?R) y ''App'' ''Show'' ''App.Show''
        (Some [(''id'', ''5'')]) = Inr None"
    by simp
  have rr: "reverseRoute flat exampleEncode (Tree ?R) ?x ''App'' ''Show'' ''App.Show''
              (Some [(''id'', ''5'')]) = Inr (Some ?D)"
    by (simp add: parse_defs tree_defs reverse_defs Let_def)
  from T have "\<forall>(R :: (fleaf list, fleaf) router) bef x aft cn mn action args d.
             Routes R = bef @ x # aft \<and> Split action CHR ''.'' = [cn, mn] \<and> Method x = ''*''
             \<and> (\<forall>y\<in>set bef. reverseRoute flat exampleEncode (Tree R) y cn mn action args = Inr None)
             \<and> reverseRoute flat exampleEncode (Tree R) x cn mn action args = Inr (Some d)
           \<longrightarrow> Reverse flat exampleEncode R action args = Inr (Some d)
               \<and> ad_Method d = ''GET'' \<and> ad_Star d"
    by blast
  from this[rule_format, of ?R "[]" ?x "[]" "''App.Show''" "''App''" "''Show''"
            "Some [(''id'', ''5'')]" ?D] Rs sp sx none rr
  have "Reverse flat exampleEncode ?R ''App.Show'' (Some [(''id'', ''5'')]) = Inr (Some ?D)"
    by blast
  with route show ?thesis by simp
qed

text \<open>
  C5.  On the table \<open>GET /admin/:ctrl Module:ctrl.Index\<close>, \<open>GET /a App.Index\<close>,
  \<open>GET /b App.Index\<close> the reverse route of \<open>App.Index\<close> does not return the first of the two
  candidates: the first route is no candidate, and the comparison of its prefix
  \<open>Module\<close> slices the shorter requested name \<open>App\<close> beyond its end, which panics.
  Without the first route the same call returns the route of \<open>/a\<close>.
\<close>

theorem Reverse_panics_before_candidate:
  "Reverse flat exampleEncode
      (refreshed [''GET /admin/:ctrl Module:ctrl.Index'', ''GET /a App.Index'', ''GET /b App.Index''])
      ''App.Index'' (Some [])
     = Inl SliceBoundsOutOfRange
   \<and> Reverse flat exampleEncode
      (refreshed [''GET /a App.Index'', ''GET /b App.Index''])
      ''App.Index'' (Some [])
     = Inr (Some \<lparr> ad_Host = ''TODO'', ad_Method = ''GET'', ad_Url = ''/a'',
                   ad_Action = ''App.Index'', ad_Star = False, ad_Args = Some [] \<rparr>)"
  by (simp add: parse_defs tree_defs reverse_defs Let_def)

end
